theory Spec2Isabelle
  imports Complex_Main "HOL-Library.Word" "HOL-Library.Char_ord" "HOL-Library.List_Lexorder"
begin

section \<open>Images\<close>

text \<open>
  An image is a matrix of pixels, stored row by row as numpy and OpenCV do. An 8-bit
  three-channel image has pixels of three bytes in the order blue, green, red; the image
  that the data generator hands out has three floating-point channels, which are modelled
  by real numbers (rounding of the floating-point operations is not modelled).
\<close>

type_synonym uint8 = "8 word"
type_synonym 'a mat = "'a list list"
type_synonym 'a px3 = "'a \<times> 'a \<times> 'a"
type_synonym image = "uint8 px3 mat"
type_synonym gray_image = "uint8 mat"
type_synonym float_image = "real px3 mat"

definition rows :: "'a mat \<Rightarrow> nat" where
  "rows img = length img"

definition cols :: "'a mat \<Rightarrow> nat" where
  "cols img = (case img of [] \<Rightarrow> 0 | r # _ \<Rightarrow> length r)"

text \<open>The shape of an array: the length of every row, top to bottom.\<close>

definition shape :: "'a mat \<Rightarrow> nat list" where
  "shape img = map length img"

definition empty_mat :: "'a mat \<Rightarrow> bool" where
  "empty_mat img = (rows img = 0 \<or> cols img = 0)"

definition map_px :: "('a \<Rightarrow> 'b) \<Rightarrow> 'a px3 \<Rightarrow> 'b px3" where
  "map_px f p = (case p of (b, g, r) \<Rightarrow> (f b, f g, f r))"

definition chan :: "nat \<Rightarrow> 'a px3 \<Rightarrow> 'a" where
  "chan c p = (case p of (b, g, r) \<Rightarrow> if c = 0 then b else if c = 1 then g else r)"

text \<open>
  The exceptions that the library calls of the two scripts raise. No exception is caught
  anywhere, so the first one ends the run. OpenCV raises \<^verbatim>\<open>cv2.error\<close> when an
  assertion on its arguments fails: every function used here rejects an empty array.
\<close>

datatype error = CvError | StopIteration | ValueError | IndexError

section \<open>OpenCV: border interpolation, saturation, filter2D\<close>

text \<open>
  \<^verbatim>\<open>cv2.filter2D(img, -1, kernel)\<close> leaves the border mode at its default,
  \<^verbatim>\<open>BORDER_REFLECT_101\<close>. OpenCV's \<^verbatim>\<open>borderInterpolate\<close> for this mode returns
  a coordinate inside the array as it is, 0 for an array of length 1, and otherwise
  mirrors the coordinate at the first or the last element (which is not repeated) until
  it lies inside. It is only ever called for an array of positive length: the filter
  rejects an empty array before.
\<close>

function reflect101 :: "int \<Rightarrow> int \<Rightarrow> int" where
  "reflect101 p len =
     (if 0 \<le> p \<and> p < len then p
      else if len \<le> 1 then 0
      else reflect101 (if p < 0 then - p - 1 + 1 else len - 1 - (p - len) - 1) len)"
  by pat_completeness auto
termination
  by (relation "measure (\<lambda>(p, len). nat (if p < 0 then 2 * (- p) + 1 else 2 * p))") auto

declare reflect101.simps [simp del]

definition borderInterpolate :: "int \<Rightarrow> nat \<Rightarrow> nat" where
  "borderInterpolate p len = nat (reflect101 p (int len))"

text \<open>\<^verbatim>\<open>saturate_cast<uchar>\<close>: clipping to the 8-bit range.\<close>

definition saturate_uint8 :: "int \<Rightarrow> uint8" where
  "saturate_uint8 v = (if v < 0 then 0 else if 255 < v then 255 else word_of_int v)"

text \<open>
  The filter is a correlation with the anchor at the centre of the kernel: the output at
  \<open>(y, x)\<close> is the sum over the kernel positions \<open>(i, j)\<close> of the kernel entry
  times the source at \<open>(y + i - anchor, x + j - anchor)\<close>, border-interpolated, each
  channel on its own; with depth \<open>-1\<close> the result has the depth of the source and is
  saturated to it.
\<close>

definition px_at :: "'a mat \<Rightarrow> nat \<Rightarrow> nat \<Rightarrow> 'a" where
  "px_at img y x = img ! y ! x"

definition filter_at :: "int mat \<Rightarrow> image \<Rightarrow> nat \<Rightarrow> nat \<Rightarrow> nat \<Rightarrow> int" where
  "filter_at ker img c y x =
     (\<Sum>i \<leftarrow> [0..<rows ker]. \<Sum>j \<leftarrow> [0..<cols ker].
        px_at ker i j *
        uint (chan c (px_at img
          (borderInterpolate (int y + int i - int (rows ker div 2)) (rows img))
          (borderInterpolate (int x + int j - int (cols ker div 2)) (cols img)))))"

definition filter2D :: "image \<Rightarrow> int mat \<Rightarrow> error + image" where
  "filter2D img ker =
     (if empty_mat img \<or> empty_mat ker then Inl CvError
      else Inr (map (\<lambda>y. map (\<lambda>x.
             (saturate_uint8 (filter_at ker img 0 y x),
              saturate_uint8 (filter_at ker img 1 y x),
              saturate_uint8 (filter_at ker img 2 y x)))
             [0..<length (img ! y)]) [0..<rows img]))"

text \<open>
  \<^verbatim>\<open>cv2.cvtColor(img, cv2.COLOR_BGR2GRAY)\<close> on 8-bit data is OpenCV's fixed-point
  weighting of the three channels (weights with sum \<open>2 ^ 15\<close>, rounded);
  \<^verbatim>\<open>COLOR_GRAY2BGR\<close> copies the single channel into all three.
\<close>

definition bgr2gray :: "uint8 px3 \<Rightarrow> uint8" where
  "bgr2gray p = (case p of (b, g, r) \<Rightarrow>
     word_of_int ((uint b * 3735 + uint g * 19235 + uint r * 9798 + 16384) div 32768))"

definition cvtColor_BGR2GRAY :: "image \<Rightarrow> error + gray_image" where
  "cvtColor_BGR2GRAY img = (if empty_mat img then Inl CvError else Inr (map (map bgr2gray) img))"

definition cvtColor_GRAY2BGR :: "gray_image \<Rightarrow> error + image" where
  "cvtColor_GRAY2BGR img =
     (if empty_mat img then Inl CvError else Inr (map (map (\<lambda>v. (v, v, v))) img))"

text \<open>
  \<^verbatim>\<open>cv2.adaptiveThreshold(src, maxValue, ADAPTIVE_THRESH_GAUSSIAN_C, THRESH_BINARY,
  blockSize, C)\<close>. The block size must be odd and greater than 1. The local mean is a
  Gaussian blur of the source over a \<open>blockSize \<times> blockSize\<close> window, computed in
  floating point and converted back to 8 bits; it is the parameter \<open>mean\<close> here, which
  gives the mean at a position of the source. The output at a position is
  \<open>maxValue\<close> (saturated to 8 bits) where the source exceeds the local mean minus
  \<open>C\<close>, and 0 elsewhere.
\<close>

type_synonym local_mean = "nat \<Rightarrow> gray_image \<Rightarrow> nat \<Rightarrow> nat \<Rightarrow> uint8"

definition adaptiveThreshold ::
  "local_mean \<Rightarrow> gray_image \<Rightarrow> int \<Rightarrow> nat \<Rightarrow> int \<Rightarrow> error + gray_image" where
  "adaptiveThreshold mean src maxValue blockSize C =
     (if \<not> (blockSize mod 2 = 1 \<and> 1 < blockSize) then Inl CvError
      else Inr (map (\<lambda>y. map (\<lambda>x.
             if uint (px_at src y x) - uint (mean blockSize src y x) > - C
             then saturate_uint8 maxValue else 0)
             [0..<length (src ! y)]) [0..<rows src]))"

section \<open>The preprocessing functions\<close>

definition sharpen :: "image \<Rightarrow> error + image" where
  "sharpen img =
     (let kernel = [[0, -1, 0],
                    [-1, 5, -1],
                    [0, -1, 0]]
      in filter2D img kernel)"

definition adaptive_threshold :: "local_mean \<Rightarrow> image \<Rightarrow> error + image" where
  "adaptive_threshold mean img =
     (case cvtColor_BGR2GRAY img of
        Inl e \<Rightarrow> Inl e
      | Inr gray \<Rightarrow>
          (case adaptiveThreshold mean gray 255 11 2 of
             Inl e \<Rightarrow> Inl e
           | Inr bin_img \<Rightarrow> cvtColor_GRAY2BGR bin_img))"

section \<open>Batches\<close>

text \<open>
  \<^verbatim>\<open>(img * 255).astype(np.uint8)\<close>: the conversion truncates towards zero and keeps
  the low eight bits.
\<close>

definition astype_uint8 :: "real \<Rightarrow> uint8" where
  "astype_uint8 v = word_of_int (if 0 \<le> v then \<lfloor>v\<rfloor> else \<lceil>v\<rceil>)"

definition denormalize :: "float_image \<Rightarrow> image" where
  "denormalize img = map (map (map_px (\<lambda>v. astype_uint8 (v * 255)))) img"

definition renormalize :: "image \<Rightarrow> float_image" where
  "renormalize img = map (map (map_px (\<lambda>v. real (unat v) / 255))) img"

text \<open>A list comprehension over calls that may raise: the first exception ends it.\<close>

fun collect :: "('e + 'a) list \<Rightarrow> 'e + 'a list" where
  "collect [] = Inr []"
| "collect (r # rs) =
     (case r of
        Inl e \<Rightarrow> Inl e
      | Inr v \<Rightarrow> (case collect rs of Inl e \<Rightarrow> Inl e | Inr vs \<Rightarrow> Inr (v # vs)))"

text \<open>
  \<^verbatim>\<open>np.array\<close> of a list of images makes one array of them, which the images must have
  the same shape for; otherwise it raises.
\<close>

definition same_shape :: "'a mat list \<Rightarrow> bool" where
  "same_shape imgs =
     (case imgs of [] \<Rightarrow> True | a # rest \<Rightarrow> list_all (\<lambda>b. shape b = shape a) rest)"

definition np_array :: "'a mat list \<Rightarrow> error + 'a mat list" where
  "np_array imgs = (if same_shape imgs then Inr imgs else Inl ValueError)"

definition preprocess_batch ::
  "float_image list \<Rightarrow> (image \<Rightarrow> error + image) \<Rightarrow> error + float_image list" where
  "preprocess_batch batch_x preprocess_func =
     (case collect (map (\<lambda>img. preprocess_func (denormalize img)) batch_x) of
        Inl e \<Rightarrow> Inl e
      | Inr imgs \<Rightarrow>
          (case np_array imgs of
             Inl e \<Rightarrow> Inl e
           | Inr batch_x' \<Rightarrow> Inr (map renormalize batch_x')))"

text \<open>
  The batch of images that a Keras iterator hands out is one array already: a list of
  images that all have the same shape.
\<close>

typedef batch = "{imgs :: float_image list. same_shape imgs}"
  by (rule exI [of _ "[]"]) (simp add: same_shape_def)

section \<open>The image script: parameters, class count, network\<close>

definition DATASET_DIR :: string where
  "DATASET_DIR = ''/kaggle/input/garbage/photos''"

definition IMG_SIZE :: "nat \<times> nat" where
  "IMG_SIZE = (128, 128)"

definition BATCH_SIZE :: nat where
  "BATCH_SIZE = 32"

definition EPOCHS :: nat where
  "EPOCHS = 40"

text \<open>
  The file system, as far as the script looks at it: the listing of a directory, each
  entry with its name and whether it is a directory. \<^verbatim>\<open>os.walk\<close> yields, first, the
  top directory with the names of its subdirectories and of its other entries; on a path
  that cannot be listed it yields nothing, and \<^verbatim>\<open>next\<close> raises.
\<close>

datatype entry_kind = Directory | RegularFile

type_synonym filesystem = "string \<rightharpoonup> (string \<times> entry_kind) list"

definition os_walk_first :: "filesystem \<Rightarrow> string \<Rightarrow> error + (string \<times> string list \<times> string list)" where
  "os_walk_first fs dir =
     (case fs dir of
        None \<Rightarrow> Inl StopIteration
      | Some entries \<Rightarrow>
          Inr (dir,
               map fst (filter (\<lambda>e. snd e = Directory) entries),
               map fst (filter (\<lambda>e. snd e \<noteq> Directory) entries)))"

definition num_classes :: "filesystem \<Rightarrow> error + nat" where
  "num_classes fs =
     (case os_walk_first fs DATASET_DIR of
        Inl e \<Rightarrow> Inl e
      | Inr w \<Rightarrow> Inr (length (fst (snd w))))"

datatype activation = Relu | Softmax

datatype layer =
    Conv2D nat "nat \<times> nat" activation "(nat \<times> nat \<times> nat) option"
  | MaxPooling2D nat nat
  | Flatten
  | Dense nat activation
  | Dropout real

record network =
  net_layers :: "layer list"
  net_optimizer :: string
  net_loss :: string
  net_metrics :: "string list"

text \<open>
  The network. Keras rejects a dense layer without units, so the network cannot be built
  for a class count of 0.
\<close>

definition build_model :: "nat \<Rightarrow> error + network" where
  "build_model n =
     (if n = 0 then Inl ValueError
      else Inr
        \<lparr>net_layers =
           [Conv2D 32 (3, 3) Relu (Some (fst IMG_SIZE, snd IMG_SIZE, 3)),
            MaxPooling2D 2 2,
            Conv2D 64 (3, 3) Relu None,
            MaxPooling2D 2 2,
            Flatten,
            Dense 128 Relu,
            Dropout 0.5,
            Dense n Softmax],
         net_optimizer = ''Adam'',
         net_loss = ''categorical_crossentropy'',
         net_metrics = [''accuracy'']\<rparr>)"

text \<open>The two networks of the script, both built for the class count.\<close>

definition build_models :: "filesystem \<Rightarrow> error + (network \<times> network)" where
  "build_models fs =
     (case num_classes fs of
        Inl e \<Rightarrow> Inl e
      | Inr n \<Rightarrow>
          (case build_model n of
             Inl e \<Rightarrow> Inl e
           | Inr model_bin \<Rightarrow>
               (case build_model n of
                  Inl e \<Rightarrow> Inl e
                | Inr model_sharp \<Rightarrow> Inr (model_bin, model_sharp))))"

section \<open>The training loops\<close>

text \<open>
  A loss or an accuracy is a floating-point number: a real number here, or not a number.
  \<^verbatim>\<open>np.mean\<close> of an empty list is not a number (numpy warns and returns it).
\<close>

datatype npfloat = NaN | Val real

fun the_val :: "npfloat \<Rightarrow> real" where
  "the_val NaN = 0"
| "the_val (Val v) = v"

definition np_mean :: "npfloat list \<Rightarrow> npfloat" where
  "np_mean xs =
     (if xs = [] \<or> NaN \<in> set xs then NaN
      else Val (sum_list (map the_val xs) / real (length xs)))"

definition steps_of :: "nat \<Rightarrow> nat" where
  "steps_of samples = samples div BATCH_SIZE"

text \<open>
  Keras and the libraries under it, as the loops use them. A trained model is a value of
  type \<open>'m\<close>, a directory iterator one of type \<open>'g\<close>, a batch of labels one of type
  \<open>'y\<close>; \<open>'a\<close> is the state that the libraries keep for the whole process (the
  random number generators that shuffling and dropout draw from), which every call may
  read and change. \<^verbatim>\<open>next\<close> on an iterator gives a batch and moves the iterator;
  \<^verbatim>\<open>train_on_batch\<close> and \<^verbatim>\<open>test_on_batch\<close> give the loss and the accuracy of the
  batch and the model after the call; \<open>samples\<close> is the number of images of an
  iterator, and \<open>gauss_mean\<close> the local mean of OpenCV's adaptive threshold.
\<close>

record ('m, 'g, 'y, 'a) keras =
  gauss_mean :: local_mean
  samples :: "'g \<Rightarrow> nat"
  next_batch :: "'a \<Rightarrow> 'g \<Rightarrow> (batch \<times> 'y) \<times> 'g \<times> 'a"
  train_on_batch :: "'a \<Rightarrow> 'm \<Rightarrow> float_image list \<Rightarrow> 'y \<Rightarrow> (npfloat \<times> npfloat) \<times> 'm \<times> 'a"
  test_on_batch :: "'a \<Rightarrow> 'm \<Rightarrow> float_image list \<Rightarrow> 'y \<Rightarrow> (npfloat \<times> npfloat) \<times> 'm \<times> 'a"

text \<open>
  The global variables of the script that the two loops read and write. The two models,
  the four iterators and the eight lists are created by separate calls and list
  displays, so no two of them are the same object.
\<close>

record ('m, 'g, 'a) state =
  ambient :: 'a
  model_bin :: 'm
  model_sharp :: 'm
  train_gen_bin :: 'g
  test_gen_bin :: 'g
  train_gen_sharp :: 'g
  test_gen_sharp :: 'g
  train_loss_bin :: "npfloat list"
  val_loss_bin :: "npfloat list"
  train_acc_bin :: "npfloat list"
  val_acc_bin :: "npfloat list"
  train_loss_sharp :: "npfloat list"
  val_loss_sharp :: "npfloat list"
  train_acc_sharp :: "npfloat list"
  val_acc_sharp :: "npfloat list"

text \<open>
  The inner loops, \<^verbatim>\<open>for step in range(steps)\<close>, on the variables they change: the
  model, the iterator, the state of the libraries and the two lists of the epoch. The
  first list is the one the loop body appends the loss to, the second the accuracy.
\<close>

fun train_steps ::
  "('m, 'g, 'y, 'a) keras \<Rightarrow> (image \<Rightarrow> error + image) \<Rightarrow> nat \<Rightarrow>
   'm \<times> 'g \<times> 'a \<times> npfloat list \<times> npfloat list \<Rightarrow>
   error + ('m \<times> 'g \<times> 'a \<times> npfloat list \<times> npfloat list)" where
  "train_steps K pre 0 v = Inr v"
| "train_steps K pre (Suc n) (m, g, a, epoch_train_loss, epoch_train_acc) =
     (case next_batch K a g of ((batch_x, batch_y), g', a1) \<Rightarrow>
        (case preprocess_batch (Rep_batch batch_x) pre of
           Inl e \<Rightarrow> Inl e
         | Inr batch_x' \<Rightarrow>
             (case train_on_batch K a1 m batch_x' batch_y of ((loss, acc), m', a2) \<Rightarrow>
                train_steps K pre n
                  (m', g', a2, epoch_train_loss @ [loss], epoch_train_acc @ [acc]))))"

fun test_steps ::
  "('m, 'g, 'y, 'a) keras \<Rightarrow> (image \<Rightarrow> error + image) \<Rightarrow> nat \<Rightarrow>
   'm \<times> 'g \<times> 'a \<times> npfloat list \<times> npfloat list \<Rightarrow>
   error + ('m \<times> 'g \<times> 'a \<times> npfloat list \<times> npfloat list)" where
  "test_steps K pre 0 v = Inr v"
| "test_steps K pre (Suc n) (m, g, a, val_loss, val_acc) =
     (case next_batch K a g of ((batch_x, batch_y), g', a1) \<Rightarrow>
        (case preprocess_batch (Rep_batch batch_x) pre of
           Inl e \<Rightarrow> Inl e
         | Inr batch_x' \<Rightarrow>
             (case test_on_batch K a1 m batch_x' batch_y of ((loss, acc), m', a2) \<Rightarrow>
                test_steps K pre n (m', g', a2, val_loss @ [loss], val_acc @ [acc]))))"

text \<open>One pass of the body of the first loop (the thresholded variant).\<close>

definition epoch_bin ::
  "('m, 'g, 'y, 'a) keras \<Rightarrow> nat \<Rightarrow> nat \<Rightarrow> ('m, 'g, 'a) state \<Rightarrow> error + ('m, 'g, 'a) state" where
  "epoch_bin K steps_train_bin steps_test_bin s =
     (case train_steps K (adaptive_threshold (gauss_mean K)) steps_train_bin
             (model_bin s, train_gen_bin s, ambient s, [], []) of
        Inl e \<Rightarrow> Inl e
      | Inr (m, g, a, epoch_train_loss, epoch_train_acc) \<Rightarrow>
          (let s1 = s\<lparr>ambient := a, model_bin := m, train_gen_bin := g,
                      train_loss_bin := train_loss_bin s @ [np_mean epoch_train_loss],
                      train_acc_bin := train_acc_bin s @ [np_mean epoch_train_acc]\<rparr>
           in case test_steps K (adaptive_threshold (gauss_mean K)) steps_test_bin
                     (model_bin s1, test_gen_bin s1, ambient s1, [], []) of
                Inl e \<Rightarrow> Inl e
              | Inr (m', g', a', val_loss, val_acc) \<Rightarrow>
                  Inr (s1\<lparr>ambient := a', model_bin := m', test_gen_bin := g',
                          val_loss_bin := val_loss_bin s1 @ [np_mean val_loss],
                          val_acc_bin := val_acc_bin s1 @ [np_mean val_acc]\<rparr>)))"

text \<open>One pass of the body of the second loop (the sharpened variant).\<close>

definition epoch_sharp ::
  "('m, 'g, 'y, 'a) keras \<Rightarrow> nat \<Rightarrow> nat \<Rightarrow> ('m, 'g, 'a) state \<Rightarrow> error + ('m, 'g, 'a) state" where
  "epoch_sharp K steps_train_sharp steps_test_sharp s =
     (case train_steps K (sharpen) steps_train_sharp
             (model_sharp s, train_gen_sharp s, ambient s, [], []) of
        Inl e \<Rightarrow> Inl e
      | Inr (m, g, a, epoch_train_loss, epoch_train_acc) \<Rightarrow>
          (let s1 = s\<lparr>ambient := a, model_sharp := m, train_gen_sharp := g,
                      train_loss_sharp := train_loss_sharp s @ [np_mean epoch_train_loss],
                      train_acc_sharp := train_acc_sharp s @ [np_mean epoch_train_acc]\<rparr>
           in case test_steps K (sharpen) steps_test_sharp
                     (model_sharp s1, test_gen_sharp s1, ambient s1, [], []) of
                Inl e \<Rightarrow> Inl e
              | Inr (m', g', a', val_loss, val_acc) \<Rightarrow>
                  Inr (s1\<lparr>ambient := a', model_sharp := m', test_gen_sharp := g',
                          val_loss_sharp := val_loss_sharp s1 @ [np_mean val_loss],
                          val_acc_sharp := val_acc_sharp s1 @ [np_mean val_acc]\<rparr>)))"

text \<open>\<^verbatim>\<open>for epoch in range(EPOCHS)\<close>, for each variant.\<close>

fun epochs_bin ::
  "('m, 'g, 'y, 'a) keras \<Rightarrow> nat \<Rightarrow> nat \<Rightarrow> nat \<Rightarrow> ('m, 'g, 'a) state \<Rightarrow> error + ('m, 'g, 'a) state" where
  "epochs_bin K steps_train_bin steps_test_bin 0 s = Inr s"
| "epochs_bin K steps_train_bin steps_test_bin (Suc n) s =
     (case epoch_bin K steps_train_bin steps_test_bin s of
        Inl e \<Rightarrow> Inl e
      | Inr s' \<Rightarrow> epochs_bin K steps_train_bin steps_test_bin n s')"

fun epochs_sharp ::
  "('m, 'g, 'y, 'a) keras \<Rightarrow> nat \<Rightarrow> nat \<Rightarrow> nat \<Rightarrow> ('m, 'g, 'a) state \<Rightarrow> error + ('m, 'g, 'a) state" where
  "epochs_sharp K steps_train_sharp steps_test_sharp 0 s = Inr s"
| "epochs_sharp K steps_train_sharp steps_test_sharp (Suc n) s =
     (case epoch_sharp K steps_train_sharp steps_test_sharp s of
        Inl e \<Rightarrow> Inl e
      | Inr s' \<Rightarrow> epochs_sharp K steps_train_sharp steps_test_sharp n s')"

definition train_bin :: "('m, 'g, 'y, 'a) keras \<Rightarrow> ('m, 'g, 'a) state \<Rightarrow> error + ('m, 'g, 'a) state" where
  "train_bin K s =
     epochs_bin K (steps_of (samples K (train_gen_bin s))) (steps_of (samples K (test_gen_bin s)))
       EPOCHS s"

definition train_sharp :: "('m, 'g, 'y, 'a) keras \<Rightarrow> ('m, 'g, 'a) state \<Rightarrow> error + ('m, 'g, 'a) state" where
  "train_sharp K s =
     epochs_sharp K (steps_of (samples K (train_gen_sharp s)))
       (steps_of (samples K (test_gen_sharp s))) EPOCHS s"

text \<open>
  The script from the creation of the eight history lists to the end of the second loop:
  the lists are set to empty, then the first loop runs to its end, then the second.
\<close>

definition empty_histories :: "('m, 'g, 'a) state \<Rightarrow> ('m, 'g, 'a) state" where
  "empty_histories s =
     s\<lparr>train_loss_bin := [], val_loss_bin := [], train_acc_bin := [], val_acc_bin := [],
       train_loss_sharp := [], val_loss_sharp := [], train_acc_sharp := [], val_acc_sharp := []\<rparr>"

definition run_training :: "('m, 'g, 'y, 'a) keras \<Rightarrow> ('m, 'g, 'a) state \<Rightarrow> error + ('m, 'g, 'a) state" where
  "run_training K s =
     (case train_bin K (empty_histories s) of
        Inl e \<Rightarrow> Inl e
      | Inr s' \<Rightarrow> train_sharp K s')"

section \<open>The tabular notebook\<close>

text \<open>
  The data frame is a list of rows; a row is its feature columns and its
  \<^verbatim>\<open>Category\<close> column. \<^verbatim>\<open>LabelEncoder.fit_transform\<close> takes the sorted distinct
  values of the column as the classes and replaces each value by the position of its
  class.
\<close>

definition classes_of :: "string list \<Rightarrow> string list" where
  "classes_of y = sort (remdups y)"

fun index_of :: "'a \<Rightarrow> 'a list \<Rightarrow> nat" where
  "index_of v [] = 0"
| "index_of v (x # xs) = (if x = v then 0 else Suc (index_of v xs))"

definition fit_transform :: "string list \<Rightarrow> nat list" where
  "fit_transform y = (let classes = classes_of y in map (\<lambda>v. index_of v classes) y)"

definition encode_category :: "('f \<times> string) list \<Rightarrow> ('f \<times> nat) list" where
  "encode_category data = zip (map fst data) (fit_transform (map snd data))"

text \<open>
  numpy's random number generator: \<open>RandomState seed\<close> is a fresh generator seeded
  with an integer, \<open>rng_permutation\<close> draws a permutation of \<open>0, \<dots>, n - 1\<close> from a
  generator and gives the generator after the draw. The generator itself (the Mersenne
  Twister) is a parameter.
\<close>

record 'r numpy_random =
  RandomState :: "nat \<Rightarrow> 'r"
  rng_permutation :: "'r \<Rightarrow> nat \<Rightarrow> nat list \<times> 'r"

datatype random_state = RandomStateNone | RandomStateInt nat

definition safe_indexing :: "'a list \<Rightarrow> nat list \<Rightarrow> error + 'a list" where
  "safe_indexing xs indices =
     (if list_all (\<lambda>i. i < length xs) indices then Inr (map (\<lambda>i. xs ! i) indices)
      else Inl IndexError)"

text \<open>
  \<^verbatim>\<open>train_test_split(X, y, test_size, random_state)\<close> of scikit-learn, with shuffling
  (the default) and a fractional test size: the arrays must have the same length, the
  fraction must lie strictly between 0 and 1, the test set takes the fraction of the
  samples rounded up, the training set the rest, which must not be empty. The rows are
  picked by a permutation of the row numbers, the test rows first; the permutation is
  drawn from a fresh generator when \<open>random_state\<close> is an integer, and from the
  generator of the process, \<open>g\<close>, when it is \<^verbatim>\<open>None\<close>. The result is
  \<^verbatim>\<open>X_train, X_test, y_train, y_test\<close> and the generator of the process after the
  call.
\<close>

definition train_test_split ::
  "'r numpy_random \<Rightarrow> 'r \<Rightarrow> 'x list \<Rightarrow> 'y list \<Rightarrow> real \<Rightarrow> random_state \<Rightarrow>
   error + (('x list \<times> 'x list \<times> 'y list \<times> 'y list) \<times> 'r)" where
  "train_test_split R g X y test_size random_state =
     (let n_samples = length X in
      if length y \<noteq> n_samples then Inl ValueError
      else if test_size \<le> 0 \<or> 1 \<le> test_size then Inl ValueError
      else
        let n_test = nat \<lceil>test_size * real n_samples\<rceil>;
            n_train = n_samples - n_test
        in if n_train = 0 then Inl ValueError
           else
             let (perm, g') =
                   (case random_state of
                      RandomStateNone \<Rightarrow> rng_permutation R g n_samples
                    | RandomStateInt seed \<Rightarrow>
                        (fst (rng_permutation R (RandomState R seed) n_samples), g));
                 ind_test = take n_test perm;
                 ind_train = take n_train (drop n_test perm)
             in case safe_indexing X ind_train of Inl e \<Rightarrow> Inl e | Inr X_train \<Rightarrow>
                (case safe_indexing X ind_test of Inl e \<Rightarrow> Inl e | Inr X_test \<Rightarrow>
                (case safe_indexing y ind_train of Inl e \<Rightarrow> Inl e | Inr y_train \<Rightarrow>
                (case safe_indexing y ind_test of Inl e \<Rightarrow> Inl e | Inr y_test \<Rightarrow>
                   Inr ((X_train, X_test, y_train, y_test), g')))))"

text \<open>
  The cell that splits the data: the features are the rows without the category column,
  the target is that column, the test fraction is 0.2 and the seed 42.
\<close>

definition split_data ::
  "'r numpy_random \<Rightarrow> 'r \<Rightarrow> ('f \<times> 'c) list \<Rightarrow>
   error + (('f list \<times> 'f list \<times> 'c list \<times> 'c list) \<times> 'r)" where
  "split_data R g data =
     (let X = map fst data; y = map snd data
      in train_test_split R g X y 0.2 (RandomStateInt 42))"

text \<open>The four arrays of a split, or the exception it raised.\<close>

definition partition_of :: "error + ('p \<times> 'r) \<Rightarrow> error + 'p" where
  "partition_of r = (case r of Inl e \<Rightarrow> Inl e | Inr (p, g) \<Rightarrow> Inr p)"

section \<open>Properties and examples\<close>

text \<open>A pixel is binary when its three channels are equal and are 0 or 255.\<close>

definition binary_px :: "uint8 px3 \<Rightarrow> bool" where
  "binary_px p = (case p of (b, g, r) \<Rightarrow> b = g \<and> g = r \<and> (b = 0 \<or> b = 255))"

text \<open>A pixel is normalised when its three channels lie between 0 and 1.\<close>

definition unit_px :: "real px3 \<Rightarrow> bool" where
  "unit_px p = (case p of (b, g, r) \<Rightarrow> 0 \<le> b \<and> b \<le> 1 \<and> 0 \<le> g \<and> g \<le> 1 \<and> 0 \<le> r \<and> r \<le> 1)"

definition example_image :: image where
  "example_image = [[(10, 20, 30), (200, 100, 50)]]"

definition example_mean :: local_mean where
  "example_mean blockSize src y x = 50"

definition example_batch :: "float_image list" where
  "example_batch = [[[(1 / 2, 1 / 5, 1)]]]"

text \<open>
  What \<^verbatim>\<open>preprocess_batch\<close> makes of a channel value when the preprocessing function
  changes nothing: the value is scaled by 255, converted to 8 bits and divided by 255.
\<close>

definition roundtrip :: "real \<Rightarrow> real" where
  "roundtrip x = real (unat (astype_uint8 (x * 255))) / 255"

text \<open>
  A small instance of the libraries: every iterator has 64 samples and hands out the
  example batch, every call moves the state of the libraries on by one.
\<close>

definition example_keras :: "(nat, nat, unit, nat) keras" where
  "example_keras =
     \<lparr>gauss_mean = example_mean,
      samples = (\<lambda>g. 64),
      next_batch = (\<lambda>a g. ((Abs_batch example_batch, ()), g + 1, a + 1)),
      train_on_batch = (\<lambda>a m x y. ((Val 1, Val (1 / 2)), m + 1, a + 1)),
      test_on_batch = (\<lambda>a m x y. ((Val 2, Val (1 / 4)), m, a + 1))\<rparr>"

definition example_state :: "(nat, nat, nat) state" where
  "example_state =
     \<lparr>ambient = 0, model_bin = 0, model_sharp = 0,
      train_gen_bin = 0, test_gen_bin = 0, train_gen_sharp = 0, test_gen_sharp = 0,
      train_loss_bin = [], val_loss_bin = [], train_acc_bin = [], val_acc_bin = [],
      train_loss_sharp = [], val_loss_sharp = [], train_acc_sharp = [], val_acc_sharp = []\<rparr>"

text \<open>
  A second instance, whose iterators know their number of samples and count the batches
  they have handed out: 64 training samples and 20 validation samples for each variant.
\<close>

definition counting_keras :: "(nat, nat \<times> nat, unit, nat) keras" where
  "counting_keras =
     \<lparr>gauss_mean = example_mean,
      samples = (\<lambda>g. fst g),
      next_batch = (\<lambda>a g. ((Abs_batch example_batch, ()), (fst g, snd g + 1), a + 1)),
      train_on_batch = (\<lambda>a m x y. ((Val 1, Val (1 / 2)), m + 1, a + 1)),
      test_on_batch = (\<lambda>a m x y. ((Val 2, Val (1 / 4)), m, a + 1))\<rparr>"

definition counting_state :: "(nat, nat \<times> nat, nat) state" where
  "counting_state =
     \<lparr>ambient = 0, model_bin = 0, model_sharp = 0,
      train_gen_bin = (64, 0), test_gen_bin = (20, 0),
      train_gen_sharp = (64, 0), test_gen_sharp = (20, 0),
      train_loss_bin = [], val_loss_bin = [], train_acc_bin = [], val_acc_bin = [],
      train_loss_sharp = [], val_loss_sharp = [], train_acc_sharp = [], val_acc_sharp = []\<rparr>"

text \<open>A dataset directory with two class folders and one other file.\<close>

definition example_fs :: filesystem where
  "example_fs =
     [DATASET_DIR \<mapsto> [(''glass'', Directory), (''paper'', Directory), (''labels.txt'', RegularFile)]]"

text \<open>A dataset directory without class folders.\<close>

definition example_fs_no_classes :: filesystem where
  "example_fs_no_classes = [DATASET_DIR \<mapsto> [(''labels.txt'', RegularFile)]]"

text \<open>
  A table of 100 rows with two feature columns and three categories, and a generator
  whose permutation is the reversal.
\<close>

definition example_data :: "((nat \<times> nat) \<times> string) list" where
  "example_data = map (\<lambda>i. ((i, i * i), [''Low'', ''Medium'', ''High''] ! (i mod 3))) [0..<100]"

definition example_rng :: "nat numpy_random" where
  "example_rng = \<lparr>RandomState = (\<lambda>seed. seed), rng_permutation = (\<lambda>r n. (rev [0..<n], r + 1))\<rparr>"

section \<open>Sharpening a uniform image\<close>

lemma reflect101_range: "0 < len \<Longrightarrow> 0 \<le> reflect101 p len \<and> reflect101 p len < len"
proof (induction p len rule: reflect101.induct)
  case (1 p len)
  show ?case
  proof (cases "0 \<le> p \<and> p < len")
    case True
    then show ?thesis by (simp add: reflect101.simps [of p len])
  next
    case False
    note out = this
    show ?thesis
    proof (cases "len \<le> 1")
      case True
      with out "1.prems" show ?thesis by (simp add: reflect101.simps [of p len])
    next
      case False
      with out have "reflect101 p len
          = reflect101 (if p < 0 then - p - 1 + 1 else len - 1 - (p - len) - 1) len"
        by (subst reflect101.simps) auto
      with "1.IH" [OF out False "1.prems"] show ?thesis by simp
    qed
  qed
qed

lemma borderInterpolate_lt: "0 < n \<Longrightarrow> borderInterpolate p n < n"
  using reflect101_range [of "int n" p] by (auto simp add: borderInterpolate_def)

lemma saturate_uint8_uint: "saturate_uint8 (uint (v :: uint8)) = v"
proof -
  have "uint v < 256" using uint_lt2p [of v] by simp
  then show ?thesis by (simp add: saturate_uint8_def)
qed

lemma rows_replicate: "rows (replicate h r) = h"
  by (simp add: rows_def)

lemma cols_replicate: "0 < h \<Longrightarrow> cols (replicate h r) = length r"
  by (cases h) (simp_all add: cols_def)

lemma px_at_replicate: "y < h \<Longrightarrow> x < w \<Longrightarrow> px_at (replicate h (replicate w p)) y x = p"
  by (simp add: px_at_def)

lemma filter_at_uniform:
  assumes "0 < h" "0 < w"
  shows "filter_at [[0, -1, 0], [-1, 5, -1], [0, -1, 0]] (replicate h (replicate w p)) c y x = uint (chan c p)"
proof -
  let ?K = "[[0, -1, 0], [-1, 5, -1], [0::int, -1, 0]]"
  let ?U = "replicate h (replicate w p)"
  have kr: "rows ?K = 3" and kc: "cols ?K = 3"
    by (simp_all add: rows_def cols_def)
  have ur: "rows ?U = h" and uc: "cols ?U = w"
    using assms by (simp_all add: rows_replicate cols_replicate)
  have u: "px_at ?U (borderInterpolate a h) (borderInterpolate b w) = p" for a b
    using assms by (simp add: px_at_replicate borderInterpolate_lt)
  have l3: "[0..<3] = [0, 1, 2]"
    by code_simp
  have "filter_at ?K ?U c y x = (\<Sum>i \<leftarrow> [0..<3]. \<Sum>j \<leftarrow> [0..<3]. px_at ?K i j * uint (chan c p))"
    unfolding filter_at_def kr kc ur uc u ..
  also have "\<dots> = uint (chan c p)"
    unfolding l3 by (simp add: px_at_def)
  finally show ?thesis .
qed

lemma uniform_rebuild:
  "map (\<lambda>y. map (\<lambda>x. (p::'a)) [0..<length (replicate h (replicate w p) ! y)]) [0..<h]
        = replicate h (replicate w p)"
proof (rule nth_equalityI)
  show "length (map (\<lambda>y. map (\<lambda>x. p) [0..<length (replicate h (replicate w p) ! y)]) [0..<h])
      = length (replicate h (replicate w p))"
    by simp
next
  fix i
  assume "i < length (map (\<lambda>y. map (\<lambda>x. p) [0..<length (replicate h (replicate w p) ! y)]) [0..<h])"
  then have i: "i < h" by simp
  then have "map (\<lambda>y. map (\<lambda>x. p) [0..<length (replicate h (replicate w p) ! y)]) [0..<h] ! i
      = map (\<lambda>x. p) [0..<w]"
    by simp
  also have "\<dots> = replicate w p"
    by (simp add: map_replicate_const)
  finally show "map (\<lambda>y. map (\<lambda>x. p) [0..<length (replicate h (replicate w p) ! y)]) [0..<h] ! i
      = replicate h (replicate w p) ! i"
    using i by simp
qed

text \<open>
  Claim C1. The sharpen transform (the 3x3 kernel with centre 5, the four neighbours -1 and
  the corners 0, saturated to the 8-bit range) returns a uniform image as it is: an image
  of positive height and width whose pixels all are the same pixel \<open>p\<close>, whatever the
  three channel values of \<open>p\<close> are.
\<close>

theorem sharpen_uniform:
  assumes "0 < h" "0 < w"
  shows "sharpen (replicate h (replicate w p)) = Inr (replicate h (replicate w p))"
proof -
  let ?K = "[[0, -1, 0], [-1, 5, -1], [0::int, -1, 0]]"
  let ?U = "replicate h (replicate w p)"
  obtain b g r where p: "p = (b, g, r)" by (cases p)
  have e: "\<not> empty_mat ?U"
    using assms by (simp add: empty_mat_def rows_replicate cols_replicate)
  have k: "\<not> empty_mat ?K"
    by (simp add: empty_mat_def rows_def cols_def)
  have px: "(saturate_uint8 (filter_at ?K ?U 0 y x),
             saturate_uint8 (filter_at ?K ?U 1 y x),
             saturate_uint8 (filter_at ?K ?U 2 y x)) = p" for y x
    unfolding filter_at_uniform [OF assms] saturate_uint8_uint by (simp add: p chan_def)
  have "sharpen ?U = filter2D ?U ?K"
    by (simp add: sharpen_def)
  also have "\<dots> = Inr (map (\<lambda>y. map (\<lambda>x. p) [0..<length (?U ! y)]) [0..<h])"
    unfolding filter2D_def px rows_replicate using e k by simp
  also have "\<dots> = Inr ?U"
    unfolding uniform_rebuild ..
  finally show ?thesis .
qed


theorem sharpen_uniform_witness:
  "(0::nat) < 2 \<and> (0::nat) < 3 \<and>
   sharpen (replicate 2 (replicate 3 (10, 20, 250))) = Inr (replicate 2 (replicate 3 (10, 20, 250)))"
  using sharpen_uniform [of 2 3 "(10, 20, 250)"] by simp


section \<open>The thresholded image\<close>

lemma shape_map_map: "shape (map (map f) img) = shape img"
  by (simp add: shape_def)

lemma shape_rebuild:
  "shape (map (\<lambda>y. map (F y) [0..<length (img ! y)]) [0..<rows img]) = shape img"
  by (rule nth_equalityI) (simp_all add: shape_def rows_def)

lemma empty_mat_shape: "empty_mat img = (case shape img of [] \<Rightarrow> True | n # _ \<Rightarrow> n = 0)"
  by (cases img) (simp_all add: empty_mat_def rows_def cols_def shape_def)

lemma empty_mat_cong: "shape a = shape b \<Longrightarrow> empty_mat a = empty_mat b"
  by (simp add: empty_mat_shape)

lemma saturate_uint8_255: "saturate_uint8 255 = 255"
  by (simp add: saturate_uint8_def)

lemma adaptiveThreshold_eq:
  "adaptiveThreshold mean src 255 11 2 =
     Inr (map (\<lambda>y. map (\<lambda>x. if uint (px_at src y x) - uint (mean 11 src y x) > - 2 then 255 else 0)
       [0..<length (src ! y)]) [0..<rows src])"
  by (simp add: adaptiveThreshold_def saturate_uint8_255)

lemma adaptive_threshold_eq:
  assumes "\<not> empty_mat img"
  shows "adaptive_threshold mean img =
     Inr (map (map (\<lambda>v. (v, v, v)))
       (map (\<lambda>y. map (\<lambda>x.
            if uint (px_at (map (map bgr2gray) img) y x) - uint (mean 11 (map (map bgr2gray) img) y x) > - 2
            then 255 else 0)
          [0..<length (map (map bgr2gray) img ! y)]) [0..<rows (map (map bgr2gray) img)]))"
proof -
  let ?gray = "map (map bgr2gray) img"
  let ?bin = "map (\<lambda>y. map (\<lambda>x.
            if uint (px_at ?gray y x) - uint (mean 11 ?gray y x) > - 2 then 255 else (0::uint8))
          [0..<length (?gray ! y)]) [0..<rows ?gray]"
  have g: "cvtColor_BGR2GRAY img = Inr ?gray"
    using assms by (simp add: cvtColor_BGR2GRAY_def)
  have "shape ?bin = shape img"
    by (simp only: shape_rebuild shape_map_map)
  then have "\<not> empty_mat ?bin"
    using assms empty_mat_cong by blast
  then have b: "cvtColor_GRAY2BGR ?bin = Inr (map (map (\<lambda>v. (v, v, v))) ?bin)"
    by (simp add: cvtColor_GRAY2BGR_def)
  show ?thesis
    unfolding adaptive_threshold_def g adaptiveThreshold_eq using b by simp
qed

lemma adaptive_threshold_shape:
  assumes "\<not> empty_mat img"
  shows "\<exists>out. adaptive_threshold mean img = Inr out \<and> shape out = shape img"
  unfolding adaptive_threshold_eq [OF assms]
  by (simp only: shape_rebuild shape_map_map sum.inject simp_thms ex_simps)

lemma bgr2gray_eq:
  "bgr2gray = (\<lambda>(b, g, r).
     word_of_int ((uint b * 3735 + uint g * 19235 + uint r * 9798 + 16384) div 32768))"
  by (rule ext) (simp add: bgr2gray_def)

lemma adaptive_threshold_px:
  assumes "y < length img" "x < length (img ! y)"
  shows "px_at (map (map (\<lambda>v. (v, v, v)))
       (map (\<lambda>y. map (\<lambda>x. T y x) [0..<length (map (map G) img ! y)]) [0..<rows (map (map G) img)]))
     y x = (T y x, T y x, T y x)"
  using assms by (simp add: px_at_def rows_def)

lemma adaptive_threshold_pixels:
  assumes "\<not> empty_mat img"
  shows "\<exists>out. adaptive_threshold mean img = Inr out \<and> shape out = shape img \<and>
           list_all (list_all binary_px) out \<and>
           (\<forall>y < length img. \<forall>x < length (img ! y).
              px_at out y x =
                (let gray = map (map bgr2gray) img;
                     v = (if uint (px_at gray y x) - uint (mean 11 gray y x) > - 2
                          then 255 else 0)
                 in (v, v, v)))"
proof -
  let ?gray = "map (map bgr2gray) img"
  let ?T = "\<lambda>y x. if uint (px_at ?gray y x) - uint (mean 11 ?gray y x) > - 2
      then 255 else (0::uint8)"
  let ?bin = "map (\<lambda>y. map (\<lambda>x. ?T y x) [0..<length (?gray ! y)]) [0..<rows ?gray]"
  let ?out = "map (map (\<lambda>v. (v, v, v))) ?bin"
  have 1: "adaptive_threshold mean img = Inr ?out"
    by (rule adaptive_threshold_eq [OF assms])
  have 2: "shape ?out = shape img"
    by (simp only: shape_rebuild shape_map_map)
  have 3: "list_all (list_all binary_px) ?out"
    by (simp add: list_all_iff binary_px_def)
  have 5: "\<forall>y < length img. \<forall>x < length (img ! y).
      px_at ?out y x =
        (let gray = map (map bgr2gray) img;
             v = (if uint (px_at gray y x) - uint (mean 11 gray y x) > - 2
                  then 255 else 0)
         in (v, v, v))"
    unfolding Let_def
  proof (intro allI impI)
    fix y x assume "y < length img" "x < length (img ! y)"
    then show "px_at ?out y x = (?T y x, ?T y x, ?T y x)"
      by (rule adaptive_threshold_px)
  qed
  show ?thesis
    by (rule exI [of _ ?out]) (intro conjI 1 2 3 5)
qed


text \<open>
  Claim C2. For every 8-bit three-channel image (of positive height and width) and any
  local mean, the adaptive-threshold transform returns an image of the same shape in which
  every pixel has three equal channels whose value is 0 or 255. The value is computed
  from the grey image (the weighted, rounded sum of the blue, green and red channel): it
  is 255 where the grey value exceeds the local mean, taken with block size 11 of the grey
  image, minus the offset 2, and 0 elsewhere.
\<close>

theorem adaptive_threshold_binary:
  assumes "\<not> empty_mat img"
  shows "\<exists>out. adaptive_threshold mean img = Inr out \<and> shape out = shape img \<and>
           list_all (list_all binary_px) out \<and>
           (\<forall>y < length img. \<forall>x < length (img ! y).
              px_at out y x =
                (let gray = map (map (\<lambda>(b, g, r).
                       word_of_int ((uint b * 3735 + uint g * 19235 + uint r * 9798 + 16384)
                         div 32768))) img;
                     v = (if uint (px_at gray y x) - uint (mean 11 gray y x) > - 2
                          then 255 else 0)
                 in (v, v, v)))"
  using adaptive_threshold_pixels [OF assms, of mean] unfolding bgr2gray_eq .

theorem adaptive_threshold_binary_witness:
  "\<exists>out. adaptive_threshold example_mean example_image = Inr out \<and>
      shape out = shape example_image \<and> list_all (list_all binary_px) out \<and>
      px_at out 0 0 = (0, 0, 0) \<and> px_at out 0 1 = (255, 255, 255)"
proof -
  have h: "\<not> empty_mat example_image"
    by (simp add: empty_mat_def rows_def cols_def example_image_def)
  from adaptive_threshold_binary [OF h, of example_mean]
  obtain out where out: "adaptive_threshold example_mean example_image = Inr out"
      "shape out = shape example_image" "list_all (list_all binary_px) out"
    and px: "\<forall>y < length example_image. \<forall>x < length (example_image ! y).
              px_at out y x =
                (let gray = map (map (\<lambda>(b, g, r).
                       word_of_int ((uint b * 3735 + uint g * 19235 + uint r * 9798 + 16384)
                         div 32768))) example_image;
                     v = (if uint (px_at gray y x) - uint (example_mean 11 gray y x) > - 2
                          then 255 else 0)
                 in (v, v, v))"
    by blast
  have l: "(0::nat) < length example_image" "(0::nat) < length (example_image ! 0)"
     "(1::nat) < length (example_image ! 0)"
    by (simp_all add: example_image_def)
  from px [rule_format, OF l(1) l(2)] have "px_at out 0 0 = (0, 0, 0)"
    by (simp add: example_image_def example_mean_def px_at_def)
  moreover from px [rule_format, OF l(1) l(3)] have "px_at out 0 1 = (255, 255, 255)"
    by (simp add: example_image_def example_mean_def px_at_def)
  ultimately show ?thesis
    using out by blast
qed


section \<open>Batches keep their shape and come back normalised\<close>

lemma shape_denormalize: "shape (denormalize img) = shape img"
  by (simp add: denormalize_def shape_map_map)

lemma shape_renormalize: "shape (renormalize img) = shape img"
  by (simp add: renormalize_def shape_map_map)

lemma unit_px_renormalize: "list_all (list_all unit_px) (renormalize img)"
proof -
  have u: "0 \<le> real (unat v) / 255 \<and> real (unat v) / 255 \<le> 1" for v :: uint8
  proof -
    have "unat v \<le> 255"
      using unsigned_less [of v, where ?'a = nat] by simp
    then have "real (unat v) \<le> real 255"
      by (simp only: of_nat_le_iff)
    then show ?thesis
      by (simp del: of_nat_unat)
  qed
  have "unit_px (map_px (\<lambda>v. real (unat v) / 255) p)" for p :: "uint8 px3"
    using u by (cases p) (simp add: unit_px_def map_px_def del: of_nat_unat)
  then show ?thesis
    by (simp add: renormalize_def list_all_iff del: of_nat_unat)
qed

lemma collect_map:
  assumes "\<forall>x\<in>set xs. \<exists>v. f x = Inr v \<and> P x v"
  shows "\<exists>vs. collect (map f xs) = Inr vs \<and> list_all2 P xs vs"
  using assms
proof (induction xs)
  case Nil
  then show ?case by simp
next
  case (Cons x xs)
  then obtain v where v: "f x = Inr v" "P x v" by auto
  from Cons obtain vs where vs: "collect (map f xs) = Inr vs" "list_all2 P xs vs" by auto
  from v vs show ?case by simp
qed

lemma list_all2_shape: "list_all2 (\<lambda>a b. h b = g a) xs ys \<Longrightarrow> map h ys = map g xs"
  by (induction xs ys rule: list_all2_induct) simp_all

lemma filter2D_shape:
  assumes "\<not> empty_mat img" "\<not> empty_mat ker"
  shows "\<exists>out. filter2D img ker = Inr out \<and> shape out = shape img"
  unfolding filter2D_def using assms by (simp add: shape_rebuild)

lemma sharpen_shape:
  assumes "\<not> empty_mat img"
  shows "\<exists>out. sharpen img = Inr out \<and> shape out = shape img"
proof -
  have "\<not> empty_mat [[0, -1, 0], [-1, 5, -1], [0::int, -1, 0]]"
    by (simp add: empty_mat_def rows_def cols_def)
  from filter2D_shape [OF assms this] show ?thesis
    by (simp add: sharpen_def)
qed

lemma same_shape_map: "same_shape imgs = (case map shape imgs of [] \<Rightarrow> True | a # rest \<Rightarrow> list_all (\<lambda>b. b = a) rest)"
  by (cases imgs) (simp_all add: same_shape_def list_all_iff)

lemma same_shape_cong: "map shape xs = map shape ys \<Longrightarrow> same_shape xs = same_shape ys"
  by (simp add: same_shape_map)

lemma denormalize_eq:
  "denormalize = map (map (\<lambda>(b, g, r).
     (word_of_int (if 0 \<le> b * 255 then \<lfloor>b * 255\<rfloor> else \<lceil>b * 255\<rceil>),
      word_of_int (if 0 \<le> g * 255 then \<lfloor>g * 255\<rfloor> else \<lceil>g * 255\<rceil>),
      word_of_int (if 0 \<le> r * 255 then \<lfloor>r * 255\<rfloor> else \<lceil>r * 255\<rceil>))))"
proof -
  have m: "map_px (\<lambda>v. astype_uint8 (v * 255)) = (\<lambda>(b, g, r).
     (word_of_int (if 0 \<le> b * 255 then \<lfloor>b * 255\<rfloor> else \<lceil>b * 255\<rceil>),
      word_of_int (if 0 \<le> g * 255 then \<lfloor>g * 255\<rfloor> else \<lceil>g * 255\<rceil>),
      word_of_int (if 0 \<le> r * 255 then \<lfloor>r * 255\<rfloor> else \<lceil>r * 255\<rceil>)))"
    by (rule ext) (simp only: map_px_def astype_uint8_def)
  show ?thesis
    unfolding m [symmetric] by (rule ext) (simp only: denormalize_def)
qed

lemma renormalize_eq:
  "renormalize = map (map (\<lambda>(b, g, r). (real (unat b) / 255, real (unat g) / 255, real (unat r) / 255)))"
proof -
  have m: "map_px (\<lambda>v. real (unat v) / 255) =
      (\<lambda>(b, g, r). (real (unat b) / 255, real (unat g) / 255, real (unat r) / 255))"
    by (rule ext) (simp only: map_px_def)
  show ?thesis
    unfolding m [symmetric] by (rule ext) (simp only: renormalize_def)
qed

lemma preprocess_batch_returns:
  assumes f: "\<forall>img. \<not> empty_mat img \<longrightarrow> (\<exists>out. f img = Inr out \<and> shape out = shape img)"
    and b: "\<forall>img\<in>set batch_x. \<not> empty_mat img"
    and s: "same_shape batch_x"
  shows "\<exists>out. preprocess_batch batch_x f = Inr out \<and> map shape out = map shape batch_x \<and>
           list_all (list_all (list_all unit_px)) out \<and>
           list_all2 (\<lambda>img res. \<exists>v. f (denormalize img) = Inr v \<and> res = renormalize v) batch_x out"
proof -
  have "\<forall>img\<in>set batch_x. \<exists>v. f (denormalize img) = Inr v \<and> shape v = shape img"
  proof
    fix img assume "img \<in> set batch_x"
    with b have "\<not> empty_mat img" by blast
    then have "\<not> empty_mat (denormalize img)"
      using empty_mat_cong [OF shape_denormalize] by blast
    with f have "\<exists>v. f (denormalize img) = Inr v \<and> shape v = shape (denormalize img)"
      by blast
    then show "\<exists>v. f (denormalize img) = Inr v \<and> shape v = shape img"
      by (simp only: shape_denormalize)
  qed
  from collect_map [of batch_x "\<lambda>img. f (denormalize img)"
      "\<lambda>a v. f (denormalize a) = Inr v \<and> shape v = shape a"]
    this
  obtain imgs where imgs: "collect (map (\<lambda>img. f (denormalize img)) batch_x) = Inr imgs"
    "list_all2 (\<lambda>a v. f (denormalize a) = Inr v \<and> shape v = shape a) batch_x imgs"
    by blast
  from imgs(2) have sh: "list_all2 (\<lambda>a v. shape v = shape a) batch_x imgs"
    by (rule list_all2_mono) simp
  have ms: "map shape imgs = map shape batch_x"
    by (rule list_all2_shape [OF sh])
  with s have "same_shape imgs"
    using same_shape_cong by blast
  then have 1: "preprocess_batch batch_x f = Inr (map renormalize imgs)"
    by (simp add: preprocess_batch_def imgs(1) np_array_def)
  from ms have 2: "map shape (map renormalize imgs) = map shape batch_x"
    by (simp add: shape_renormalize comp_def)
  have 3: "list_all (list_all (list_all unit_px)) (map renormalize imgs)"
    by (simp add: list_all_iff unit_px_renormalize [unfolded list_all_iff])
  from imgs(2) have "list_all2 (\<lambda>a v. \<exists>w. f (denormalize a) = Inr w \<and> renormalize v = renormalize w)
      batch_x imgs"
    by (rule list_all2_mono) blast
  then have 4: "list_all2 (\<lambda>img res. \<exists>v. f (denormalize img) = Inr v \<and> res = renormalize v)
      batch_x (map renormalize imgs)"
    by (simp add: list_all2_map2)
  show ?thesis
    by (rule exI [of _ "map renormalize imgs"]) (intro conjI 1 2 3 4)
qed

lemma preprocess_batch_example:
  "preprocess_batch example_batch sharpen = Inr [[[(127 / 255, 51 / 255, 1)]]]"
  by (simp add: example_batch_def preprocess_batch_def denormalize_def renormalize_def
      map_px_def astype_uint8_def sharpen_def filter2D_def filter_at_def borderInterpolate_def
      reflect101.simps chan_def empty_mat_def rows_def cols_def px_at_def saturate_uint8_def
      np_array_def same_shape_def)

text \<open>
  Claim C4. For a preprocessing function that returns an image of the same shape for
  every image of positive height and width (as both preprocessing functions of the script
  do), and for every batch of such images (one array: the images have the same shape),
  \<^verbatim>\<open>preprocess_batch\<close> returns a batch in which every image has the shape of the
  corresponding input image and every channel value lies between 0 and 1. Each image of
  the result is what the preprocessing function returns for the input image scaled by 255
  and converted to 8 bits, with every channel divided by 255.
\<close>

theorem preprocess_batch_unit:
  assumes "\<forall>img. \<not> empty_mat img \<longrightarrow> (\<exists>out. f img = Inr out \<and> shape out = shape img)"
    and "\<forall>img\<in>set batch_x. \<not> empty_mat img"
    and "same_shape batch_x"
  shows "\<exists>out. preprocess_batch batch_x f = Inr out \<and> map shape out = map shape batch_x \<and>
           list_all (list_all (list_all unit_px)) out \<and>
           list_all2 (\<lambda>img res. \<exists>v.
               f (map (map (\<lambda>(b, g, r).
                    (word_of_int (if 0 \<le> b * 255 then \<lfloor>b * 255\<rfloor> else \<lceil>b * 255\<rceil>),
                     word_of_int (if 0 \<le> g * 255 then \<lfloor>g * 255\<rfloor> else \<lceil>g * 255\<rceil>),
                     word_of_int (if 0 \<le> r * 255 then \<lfloor>r * 255\<rfloor> else \<lceil>r * 255\<rceil>)))) img)
                 = Inr v \<and>
               res = map (map (\<lambda>(b, g, r).
                       (real (unat b) / 255, real (unat g) / 255, real (unat r) / 255))) v)
             batch_x out"
  using preprocess_batch_returns [OF assms] unfolding denormalize_eq renormalize_eq .

theorem preprocess_batch_unit_witness:
  "\<exists>out. preprocess_batch example_batch sharpen = Inr out \<and>
      out = [[[(127 / 255, 51 / 255, 1)]]] \<and>
      map shape out = map shape example_batch \<and> list_all (list_all (list_all unit_px)) out"
proof -
  have f: "\<forall>img. \<not> empty_mat img \<longrightarrow> (\<exists>out. sharpen img = Inr out \<and> shape out = shape img)"
    using sharpen_shape by blast
  have b: "\<forall>img\<in>set example_batch. \<not> empty_mat img"
    by (simp add: example_batch_def empty_mat_def rows_def cols_def)
  have s: "same_shape example_batch"
    by (simp add: example_batch_def same_shape_def)
  from preprocess_batch_unit [OF f b s] preprocess_batch_example show ?thesis
    by auto
qed


section \<open>The round trip through 8 bits\<close>

lemma astype_uint8_floor: "0 \<le> v \<Longrightarrow> v < 256 \<Longrightarrow> real (unat (astype_uint8 v)) = of_int \<lfloor>v\<rfloor>"
proof -
  assume v: "0 \<le> v" "v < 256"
  then have "0 \<le> \<lfloor>v\<rfloor>" "\<lfloor>v\<rfloor> < 256" by (simp_all add: floor_less_iff)
  then have "uint (word_of_int \<lfloor>v\<rfloor> :: uint8) = \<lfloor>v\<rfloor>"
    by (simp add: uint_word_of_int)
  then have "int (unat (word_of_int \<lfloor>v\<rfloor> :: uint8)) = \<lfloor>v\<rfloor>"
    by simp
  then have "real_of_int (int (unat (word_of_int \<lfloor>v\<rfloor> :: uint8))) = of_int \<lfloor>v\<rfloor>"
    by (rule arg_cong)
  with v show ?thesis by (simp add: astype_uint8_def)
qed

lemma preprocess_batch_id:
  "preprocess_batch [[[(x, x, x)]]] Inr = Inr [[[(roundtrip x, roundtrip x, roundtrip x)]]]"
  by (simp add: preprocess_batch_def denormalize_def renormalize_def map_px_def roundtrip_def
      np_array_def same_shape_def)

lemma roundtrip_lossy:
  assumes "0 \<le> x" "x \<le> 1" "x * 255 \<notin> \<int>"
  shows "roundtrip x \<noteq> x"
proof
  assume e: "roundtrip x = x"
  from assms have "0 \<le> x * 255" "x * 255 < 256" by simp_all
  from astype_uint8_floor [OF this] e have "of_int \<lfloor>x * 255\<rfloor> = x * 255"
    by (simp add: roundtrip_def)
  then have "x * 255 \<in> \<int>"
    by (metis Ints_of_int)
  with assms show False by blast
qed

text \<open>
  Claim C10. With the identity as preprocessing function, \<^verbatim>\<open>preprocess_batch\<close> is not
  the identity on channel values between 0 and 1: there is such a value that the batch of
  the one pixel with this value does not come back as it was.
\<close>

theorem roundtrip_not_identity:
  "(\<exists>x. 0 \<le> x \<and> x \<le> 1 \<and> preprocess_batch [[[(x, x, x)]]] Inr \<noteq> Inr [[[(x, x, x)]]])"
proof -
  have "(1 / 2 :: real) * 255 \<notin> \<int>"
  proof
    assume "(1 / 2 :: real) * 255 \<in> \<int>"
    then obtain k :: int where "(1 / 2 :: real) * 255 = of_int k" by (auto elim: Ints_cases)
    then have "(255 :: real) = of_int (2 * k)" by simp
    then have "(255 :: int) = 2 * k" by (metis of_int_eq_iff of_int_numeral)
    then show False by presburger
  qed
  then have "roundtrip (1 / 2) \<noteq> 1 / 2"
    by (intro roundtrip_lossy) simp_all
  then have "preprocess_batch [[[(1 / 2, 1 / 2, 1 / 2)]]] Inr \<noteq> Inr [[[(1 / 2, 1 / 2, 1 / 2 :: real)]]]"
    by (simp add: preprocess_batch_id)
  then show ?thesis
    by (intro exI [of _ "1 / 2"]) simp
qed


section \<open>The training loops\<close>

lemma epoch_bin_frame:
  assumes "epoch_bin K a b s = Inr s'"
  shows "model_sharp s' = model_sharp s \<and> train_gen_sharp s' = train_gen_sharp s \<and>
         test_gen_sharp s' = test_gen_sharp s \<and>
         train_loss_sharp s' = train_loss_sharp s \<and> train_acc_sharp s' = train_acc_sharp s \<and>
         val_loss_sharp s' = val_loss_sharp s \<and> val_acc_sharp s' = val_acc_sharp s"
  using assms unfolding epoch_bin_def Let_def
  by (auto split: sum.splits prod.splits)

lemma epoch_bin_lengths:
  assumes "epoch_bin K a b s = Inr s'"
  shows "length (train_loss_bin s') = Suc (length (train_loss_bin s)) \<and>
         length (train_acc_bin s') = Suc (length (train_acc_bin s)) \<and>
         length (val_loss_bin s') = Suc (length (val_loss_bin s)) \<and>
         length (val_acc_bin s') = Suc (length (val_acc_bin s))"
  using assms unfolding epoch_bin_def Let_def
  by (auto split: sum.splits prod.splits)


lemma epoch_sharp_frame:
  assumes "epoch_sharp K a b s = Inr s'"
  shows "model_bin s' = model_bin s \<and> train_gen_bin s' = train_gen_bin s \<and>
         test_gen_bin s' = test_gen_bin s \<and>
         train_loss_bin s' = train_loss_bin s \<and> train_acc_bin s' = train_acc_bin s \<and>
         val_loss_bin s' = val_loss_bin s \<and> val_acc_bin s' = val_acc_bin s"
  using assms unfolding epoch_sharp_def Let_def
  by (auto split: sum.splits prod.splits)

lemma epoch_sharp_lengths:
  assumes "epoch_sharp K a b s = Inr s'"
  shows "length (train_loss_sharp s') = Suc (length (train_loss_sharp s)) \<and>
         length (train_acc_sharp s') = Suc (length (train_acc_sharp s)) \<and>
         length (val_loss_sharp s') = Suc (length (val_loss_sharp s)) \<and>
         length (val_acc_sharp s') = Suc (length (val_acc_sharp s))"
  using assms unfolding epoch_sharp_def Let_def
  by (auto split: sum.splits prod.splits)

lemma epochs_bin_frame:
  "epochs_bin K a b n s = Inr s' \<Longrightarrow>
     model_sharp s' = model_sharp s \<and> train_gen_sharp s' = train_gen_sharp s \<and>
     test_gen_sharp s' = test_gen_sharp s \<and>
     train_loss_sharp s' = train_loss_sharp s \<and> train_acc_sharp s' = train_acc_sharp s \<and>
     val_loss_sharp s' = val_loss_sharp s \<and> val_acc_sharp s' = val_acc_sharp s"
proof (induction n arbitrary: s)
  case 0
  then show ?case by simp
next
  case (Suc n)
  then obtain s1 where s1: "epoch_bin K a b s = Inr s1" "epochs_bin K a b n s1 = Inr s'"
    by (auto split: sum.splits)
  from Suc.IH [OF s1(2)] epoch_bin_frame [OF s1(1)] show ?case by simp
qed

lemma epochs_sharp_frame:
  "epochs_sharp K a b n s = Inr s' \<Longrightarrow>
     model_bin s' = model_bin s \<and> train_gen_bin s' = train_gen_bin s \<and>
     test_gen_bin s' = test_gen_bin s \<and>
     train_loss_bin s' = train_loss_bin s \<and> train_acc_bin s' = train_acc_bin s \<and>
     val_loss_bin s' = val_loss_bin s \<and> val_acc_bin s' = val_acc_bin s"
proof (induction n arbitrary: s)
  case 0
  then show ?case by simp
next
  case (Suc n)
  then obtain s1 where s1: "epoch_sharp K a b s = Inr s1" "epochs_sharp K a b n s1 = Inr s'"
    by (auto split: sum.splits)
  from Suc.IH [OF s1(2)] epoch_sharp_frame [OF s1(1)] show ?case by simp
qed

lemma epochs_bin_lengths:
  "epochs_bin K a b n s = Inr s' \<Longrightarrow>
     length (train_loss_bin s') = length (train_loss_bin s) + n \<and>
     length (train_acc_bin s') = length (train_acc_bin s) + n \<and>
     length (val_loss_bin s') = length (val_loss_bin s) + n \<and>
     length (val_acc_bin s') = length (val_acc_bin s) + n"
proof (induction n arbitrary: s)
  case 0
  then show ?case by simp
next
  case (Suc n)
  then obtain s1 where s1: "epoch_bin K a b s = Inr s1" "epochs_bin K a b n s1 = Inr s'"
    by (auto split: sum.splits)
  from Suc.IH [OF s1(2)] epoch_bin_lengths [OF s1(1)] show ?case by simp
qed

lemma epochs_sharp_lengths:
  "epochs_sharp K a b n s = Inr s' \<Longrightarrow>
     length (train_loss_sharp s') = length (train_loss_sharp s) + n \<and>
     length (train_acc_sharp s') = length (train_acc_sharp s) + n \<and>
     length (val_loss_sharp s') = length (val_loss_sharp s) + n \<and>
     length (val_acc_sharp s') = length (val_acc_sharp s) + n"
proof (induction n arbitrary: s)
  case 0
  then show ?case by simp
next
  case (Suc n)
  then obtain s1 where s1: "epoch_sharp K a b s = Inr s1" "epochs_sharp K a b n s1 = Inr s'"
    by (auto split: sum.splits)
  from Suc.IH [OF s1(2)] epoch_sharp_lengths [OF s1(1)] show ?case by simp
qed

lemma preprocess_batch_total:
  assumes "\<forall>img. \<not> empty_mat img \<longrightarrow> (\<exists>out. f img = Inr out \<and> shape out = shape img)"
    and "\<forall>img\<in>set batch_x. \<not> empty_mat img"
    and "same_shape batch_x"
  shows "\<exists>out. preprocess_batch batch_x f = Inr out"
  using preprocess_batch_returns [OF assms] by blast

lemma train_steps_total:
  assumes pre: "\<forall>img. \<not> empty_mat img \<longrightarrow> (\<exists>out. pre img = Inr out \<and> shape out = shape img)"
    and gen: "\<forall>a g. \<forall>img\<in>set (Rep_batch (fst (fst (next_batch K a g)))). \<not> empty_mat img"
  shows "\<exists>v'. train_steps K pre n v = Inr v'"
proof (induction n arbitrary: v)
  case 0
  show ?case by (simp del: split_paired_Ex)
next
  case (Suc n)
  obtain m g a l1 l2 where v: "v = (m, g, a, l1, l2)"
    by (cases v) auto
  obtain bx lab g' a1 where nb: "next_batch K a g = ((bx, lab), g', a1)"
    by (cases "next_batch K a g") auto
  from gen [rule_format, of _ a g] nb have ne: "\<forall>img\<in>set (Rep_batch bx). \<not> empty_mat img"
    by simp
  have ss: "same_shape (Rep_batch bx)"
    using Rep_batch [of bx] by simp
  from preprocess_batch_total [OF pre ne ss]
  obtain bx' where pb: "preprocess_batch (Rep_batch bx) pre = Inr bx'"
    by blast
  obtain lo ac m' a2 where tb: "train_on_batch K a1 m bx' lab = ((lo, ac), m', a2)"
    by (cases "train_on_batch K a1 m bx' lab") auto
  from Suc [of "(m', g', a2, l1 @ [lo], l2 @ [ac])"] show ?case
    by (simp add: v nb pb tb)
qed

lemma test_steps_total:
  assumes pre: "\<forall>img. \<not> empty_mat img \<longrightarrow> (\<exists>out. pre img = Inr out \<and> shape out = shape img)"
    and gen: "\<forall>a g. \<forall>img\<in>set (Rep_batch (fst (fst (next_batch K a g)))). \<not> empty_mat img"
  shows "\<exists>v'. test_steps K pre n v = Inr v'"
proof (induction n arbitrary: v)
  case 0
  show ?case by (simp del: split_paired_Ex)
next
  case (Suc n)
  obtain m g a l1 l2 where v: "v = (m, g, a, l1, l2)"
    by (cases v) auto
  obtain bx lab g' a1 where nb: "next_batch K a g = ((bx, lab), g', a1)"
    by (cases "next_batch K a g") auto
  from gen [rule_format, of _ a g] nb have ne: "\<forall>img\<in>set (Rep_batch bx). \<not> empty_mat img"
    by simp
  have ss: "same_shape (Rep_batch bx)"
    using Rep_batch [of bx] by simp
  from preprocess_batch_total [OF pre ne ss]
  obtain bx' where pb: "preprocess_batch (Rep_batch bx) pre = Inr bx'"
    by blast
  obtain lo ac m' a2 where tb: "test_on_batch K a1 m bx' lab = ((lo, ac), m', a2)"
    by (cases "test_on_batch K a1 m bx' lab") auto
  from Suc [of "(m', g', a2, l1 @ [lo], l2 @ [ac])"] show ?case
    by (simp add: v nb pb tb)
qed

lemma epoch_bin_total:
  assumes gen: "\<forall>a g. \<forall>img\<in>set (Rep_batch (fst (fst (next_batch K a g)))). \<not> empty_mat img"
  shows "\<exists>s'. epoch_bin K a b s = Inr s'"
proof -
  have pre: "\<forall>img. \<not> empty_mat img \<longrightarrow>
      (\<exists>out. adaptive_threshold (gauss_mean K) img = Inr out \<and> shape out = shape img)"
    using adaptive_threshold_shape by blast
  obtain v where "train_steps K (adaptive_threshold (gauss_mean K)) a
      (model_bin s, train_gen_bin s, ambient s, [], []) = Inr v"
    using train_steps_total [OF pre gen] by blast
  then obtain m g am l1 l2 where v: "train_steps K (adaptive_threshold (gauss_mean K)) a
      (model_bin s, train_gen_bin s, ambient s, [], []) = Inr (m, g, am, l1, l2)"
    by (cases v) auto
  obtain w where "test_steps K (adaptive_threshold (gauss_mean K)) b (m, test_gen_bin s, am, [], []) = Inr w"
    using test_steps_total [OF pre gen] by blast
  then obtain m' g' am' l1' l2' where w: "test_steps K (adaptive_threshold (gauss_mean K)) b
      (m, test_gen_bin s, am, [], []) = Inr (m', g', am', l1', l2')"
    by (cases w) auto
  show ?thesis
    by (simp add: epoch_bin_def v w)
qed

lemma epochs_bin_total:
  assumes gen: "\<forall>a g. \<forall>img\<in>set (Rep_batch (fst (fst (next_batch K a g)))). \<not> empty_mat img"
  shows "\<exists>s'. epochs_bin K a b n s = Inr s'"
proof (induction n arbitrary: s)
  case 0
  show ?case by simp
next
  case (Suc n)
  obtain s1 where s1: "epoch_bin K a b s = Inr s1"
    using epoch_bin_total [OF gen] by blast
  from Suc [of s1] show ?case
    by (simp add: s1)
qed

lemma epoch_sharp_total:
  assumes gen: "\<forall>a g. \<forall>img\<in>set (Rep_batch (fst (fst (next_batch K a g)))). \<not> empty_mat img"
  shows "\<exists>s'. epoch_sharp K a b s = Inr s'"
proof -
  have pre: "\<forall>img. \<not> empty_mat img \<longrightarrow>
      (\<exists>out. sharpen img = Inr out \<and> shape out = shape img)"
    using sharpen_shape by blast
  obtain v where "train_steps K (sharpen) a
      (model_sharp s, train_gen_sharp s, ambient s, [], []) = Inr v"
    using train_steps_total [OF pre gen] by blast
  then obtain m g am l1 l2 where v: "train_steps K (sharpen) a
      (model_sharp s, train_gen_sharp s, ambient s, [], []) = Inr (m, g, am, l1, l2)"
    by (cases v) auto
  obtain w where "test_steps K (sharpen) b (m, test_gen_sharp s, am, [], []) = Inr w"
    using test_steps_total [OF pre gen] by blast
  then obtain m' g' am' l1' l2' where w: "test_steps K (sharpen) b
      (m, test_gen_sharp s, am, [], []) = Inr (m', g', am', l1', l2')"
    by (cases w) auto
  show ?thesis
    by (simp add: epoch_sharp_def v w)
qed

lemma epochs_sharp_total:
  assumes gen: "\<forall>a g. \<forall>img\<in>set (Rep_batch (fst (fst (next_batch K a g)))). \<not> empty_mat img"
  shows "\<exists>s'. epochs_sharp K a b n s = Inr s'"
proof (induction n arbitrary: s)
  case 0
  show ?case by simp
next
  case (Suc n)
  obtain s1 where s1: "epoch_sharp K a b s = Inr s1"
    using epoch_sharp_total [OF gen] by blast
  from Suc [of s1] show ?case
    by (simp add: s1)
qed

lemma run_training_total:
  assumes gen: "\<forall>a g. \<forall>img\<in>set (Rep_batch (fst (fst (next_batch K a g)))). \<not> empty_mat img"
  shows "\<exists>s'. run_training K s = Inr s'"
proof -
  obtain s1 where s1: "train_bin K (empty_histories s) = Inr s1"
    unfolding train_bin_def using epochs_bin_total [OF gen] by blast
  obtain s2 where s2: "train_sharp K s1 = Inr s2"
    unfolding train_sharp_def using epochs_sharp_total [OF gen] by blast
  show ?thesis
    by (simp add: run_training_def s1 s2)
qed

lemma Rep_example_batch: "Rep_batch (Abs_batch example_batch) = example_batch"
  by (simp add: Abs_batch_inverse example_batch_def same_shape_def)

lemma counting_keras_batches:
  "\<forall>a g. \<forall>img\<in>set (Rep_batch (fst (fst (next_batch counting_keras a g)))). \<not> empty_mat img"
  by (simp add: counting_keras_def Rep_example_batch)
    (simp add: example_batch_def empty_mat_def rows_def cols_def)

lemma example_keras_batches:
  "\<forall>a g. \<forall>img\<in>set (Rep_batch (fst (fst (next_batch example_keras a g)))). \<not> empty_mat img"
  by (simp add: example_keras_def Rep_example_batch)
    (simp add: example_batch_def empty_mat_def rows_def cols_def)

lemma preprocess_batch_example_bin:
  "preprocess_batch example_batch (adaptive_threshold example_mean) = Inr [[[(1, 1, 1)]]]"
  by (simp add: example_batch_def example_mean_def preprocess_batch_def denormalize_def
      renormalize_def map_px_def astype_uint8_def adaptive_threshold_def cvtColor_BGR2GRAY_def
      cvtColor_GRAY2BGR_def adaptiveThreshold_def empty_mat_def rows_def cols_def bgr2gray_def
      px_at_def saturate_uint8_def np_array_def same_shape_def)

lemma example_epoch_bin:
  "epoch_bin example_keras 1 0 example_state =
     Inr (example_state\<lparr>ambient := 2, model_bin := 1, train_gen_bin := 1,
            train_loss_bin := [Val 1], train_acc_bin := [Val (1 / 2)],
            val_loss_bin := [NaN], val_acc_bin := [NaN]\<rparr>)"
  by (simp add: epoch_bin_def example_keras_def Rep_example_batch preprocess_batch_example_bin
      np_mean_def)
    (simp add: example_state_def)

lemma example_epoch_sharp:
  "epoch_sharp example_keras 1 0 example_state =
     Inr (example_state\<lparr>ambient := 2, model_sharp := 1, train_gen_sharp := 1,
            train_loss_sharp := [Val 1], train_acc_sharp := [Val (1 / 2)],
            val_loss_sharp := [NaN], val_acc_sharp := [NaN]\<rparr>)"
  by (simp add: epoch_sharp_def example_keras_def Rep_example_batch preprocess_batch_example
      np_mean_def)
    (simp add: example_state_def)

lemma train_bin_total:
  assumes "\<forall>a g. \<forall>img\<in>set (Rep_batch (fst (fst (next_batch K a g)))). \<not> empty_mat img"
  shows "\<exists>s'. train_bin K s = Inr s'"
  unfolding train_bin_def using epochs_bin_total [OF assms] by blast

lemma train_sharp_total:
  assumes "\<forall>a g. \<forall>img\<in>set (Rep_batch (fst (fst (next_batch K a g)))). \<not> empty_mat img"
  shows "\<exists>s'. train_sharp K s = Inr s'"
  unfolding train_sharp_def using epochs_sharp_total [OF assms] by blast

lemma np_mean_Nil: "np_mean [] = NaN"
  by (simp add: np_mean_def)

lemma epochs_bin_no_val:
  "epochs_bin K a 0 n s = Inr s' \<Longrightarrow>
     val_loss_bin s' = val_loss_bin s @ replicate n NaN \<and>
     val_acc_bin s' = val_acc_bin s @ replicate n NaN"
proof (induction n arbitrary: s)
  case 0
  then show ?case by simp
next
  case (Suc n)
  then obtain s1 where s1: "epoch_bin K a 0 s = Inr s1" "epochs_bin K a 0 n s1 = Inr s'"
    by (auto split: sum.splits)
  from s1(1) have "val_loss_bin s1 = val_loss_bin s @ [NaN] \<and> val_acc_bin s1 = val_acc_bin s @ [NaN]"
    unfolding epoch_bin_def Let_def
    by (auto simp: np_mean_Nil split: sum.splits prod.splits)
  with Suc.IH [OF s1(2)] show ?case by simp
qed

lemma epochs_sharp_no_val:
  "epochs_sharp K a 0 n s = Inr s' \<Longrightarrow>
     val_loss_sharp s' = val_loss_sharp s @ replicate n NaN \<and>
     val_acc_sharp s' = val_acc_sharp s @ replicate n NaN"
proof (induction n arbitrary: s)
  case 0
  then show ?case by simp
next
  case (Suc n)
  then obtain s1 where s1: "epoch_sharp K a 0 s = Inr s1" "epochs_sharp K a 0 n s1 = Inr s'"
    by (auto split: sum.splits)
  from s1(1) have "val_loss_sharp s1 = val_loss_sharp s @ [NaN] \<and> val_acc_sharp s1 = val_acc_sharp s @ [NaN]"
    unfolding epoch_sharp_def Let_def
    by (auto simp: np_mean_Nil split: sum.splits prod.splits)
  with Suc.IH [OF s1(2)] show ?case by simp
qed

lemma train_bin_eq:
  "train_bin K s =
     epochs_bin K (samples K (train_gen_bin s) div 32) (samples K (test_gen_bin s) div 32) 40 s"
  by (simp add: train_bin_def steps_of_def BATCH_SIZE_def EPOCHS_def)

lemma train_sharp_eq:
  "train_sharp K s =
     epochs_sharp K (samples K (train_gen_sharp s) div 32) (samples K (test_gen_sharp s) div 32) 40 s"
  by (simp add: train_sharp_def steps_of_def BATCH_SIZE_def EPOCHS_def)

lemma train_bin_no_val:
  assumes "samples K (test_gen_bin s) = 20" "train_bin K s = Inr s'"
  shows "val_loss_bin s' = val_loss_bin s @ replicate 40 NaN \<and>
         val_acc_bin s' = val_acc_bin s @ replicate 40 NaN"
proof -
  from assms have "epochs_bin K (samples K (train_gen_bin s) div 32) 0 40 s = Inr s'"
    by (simp add: train_bin_eq)
  then show ?thesis by (rule epochs_bin_no_val)
qed

lemma train_sharp_no_val:
  assumes "samples K (test_gen_sharp s) = 20" "train_sharp K s = Inr s'"
  shows "val_loss_sharp s' = val_loss_sharp s @ replicate 40 NaN \<and>
         val_acc_sharp s' = val_acc_sharp s @ replicate 40 NaN"
proof -
  from assms have "epochs_sharp K (samples K (train_gen_sharp s) div 32) 0 40 s = Inr s'"
    by (simp add: train_sharp_eq)
  then show ?thesis by (rule epochs_sharp_no_val)
qed

lemma run_training_no_val:
  assumes b: "samples K (test_gen_bin s) = 20" and c: "samples K (test_gen_sharp s) = 20"
    and run: "run_training K s = Inr r"
  shows "val_loss_bin r = replicate 40 NaN \<and> val_acc_bin r = replicate 40 NaN \<and>
         val_loss_sharp r = replicate 40 NaN \<and> val_acc_sharp r = replicate 40 NaN"
proof -
  from run obtain s1 where s1: "train_bin K (empty_histories s) = Inr s1" "train_sharp K s1 = Inr r"
    by (auto simp: run_training_def split: sum.splits)
  from b have b': "samples K (test_gen_bin (empty_histories s)) = 20"
    by (simp add: empty_histories_def)
  note f1 = epochs_bin_frame [OF s1(1) [unfolded train_bin_def]]
  from c f1 have c': "samples K (test_gen_sharp s1) = 20"
    by (simp add: empty_histories_def)
  note n1 = train_bin_no_val [OF b' s1(1)]
  note n2 = train_sharp_no_val [OF c' s1(2)]
  note f2 = epochs_sharp_frame [OF s1(2) [unfolded train_sharp_def]]
  from n1 n2 f1 f2 show ?thesis
    by (simp add: empty_histories_def)
qed

text \<open>
  Claim C3. Each loop runs, in every one of its 40 epochs, as many training steps and as
  many validation steps as its training iterator and its validation iterator have
  samples, divided by the batch size 32 and rounded down; for 20 samples that is 0 steps.
  An epoch with 0 validation steps appends the mean of an empty list, which is not a
  number, to the validation loss history and to the validation accuracy history. With 20
  validation samples each whole loop therefore appends 40 such entries to each of its two
  validation histories, and after the whole script these histories consist of them.
\<close>

theorem zero_validation_steps:
  "train_bin K s =
     epochs_bin K (samples K (train_gen_bin s) div 32) (samples K (test_gen_bin s) div 32) 40 s \<and>
   train_sharp K s =
     epochs_sharp K (samples K (train_gen_sharp s) div 32) (samples K (test_gen_sharp s) div 32) 40 s \<and>
   steps_of n = n div 32 \<and> steps_of 20 = 0 \<and> np_mean [] = NaN \<and>
   (epoch_bin K st 0 s = Inr t \<longrightarrow>
      val_loss_bin t = val_loss_bin s @ [NaN] \<and> val_acc_bin t = val_acc_bin s @ [NaN]) \<and>
   (epoch_sharp K st 0 s = Inr t' \<longrightarrow>
      val_loss_sharp t' = val_loss_sharp s @ [NaN] \<and> val_acc_sharp t' = val_acc_sharp s @ [NaN]) \<and>
   (samples K (test_gen_bin s) = 20 \<and> train_bin K s = Inr s' \<longrightarrow>
      val_loss_bin s' = val_loss_bin s @ replicate 40 NaN \<and>
      val_acc_bin s' = val_acc_bin s @ replicate 40 NaN) \<and>
   (samples K (test_gen_sharp s) = 20 \<and> train_sharp K s = Inr s'' \<longrightarrow>
      val_loss_sharp s'' = val_loss_sharp s @ replicate 40 NaN \<and>
      val_acc_sharp s'' = val_acc_sharp s @ replicate 40 NaN) \<and>
   (samples K (test_gen_bin s) = 20 \<and> samples K (test_gen_sharp s) = 20 \<and>
    run_training K s = Inr r \<longrightarrow>
      val_loss_bin r = replicate 40 NaN \<and> val_acc_bin r = replicate 40 NaN \<and>
      val_loss_sharp r = replicate 40 NaN \<and> val_acc_sharp r = replicate 40 NaN)"
proof -
  have 1: "steps_of n = n div 32" and 2: "steps_of 20 = 0"
    by (simp_all add: steps_of_def BATCH_SIZE_def)
  have 3: "val_loss_bin t = val_loss_bin s @ [NaN] \<and> val_acc_bin t = val_acc_bin s @ [NaN]"
    if "epoch_bin K st 0 s = Inr t"
    using epochs_bin_no_val [of K st 1 s t] that by simp
  have 4: "val_loss_sharp t' = val_loss_sharp s @ [NaN] \<and> val_acc_sharp t' = val_acc_sharp s @ [NaN]"
    if "epoch_sharp K st 0 s = Inr t'"
    using epochs_sharp_no_val [of K st 1 s t'] that by simp
  show ?thesis
    using 1 2 3 4 np_mean_Nil train_bin_eq [of K s] train_sharp_eq [of K s]
      train_bin_no_val [of K s s'] train_sharp_no_val [of K s s''] run_training_no_val [of K s r]
    by blast
qed

theorem zero_validation_steps_witness:
  "(\<exists>t. epoch_bin example_keras 1 0 example_state = Inr t \<and>
      val_loss_bin t = [NaN] \<and> val_acc_bin t = [NaN]) \<and>
   (\<exists>t'. epoch_sharp example_keras 1 0 example_state = Inr t' \<and>
      val_loss_sharp t' = [NaN] \<and> val_acc_sharp t' = [NaN]) \<and>
   (\<exists>s'. train_bin counting_keras counting_state = Inr s' \<and>
      val_loss_bin s' = replicate 40 NaN \<and> val_acc_bin s' = replicate 40 NaN) \<and>
   (\<exists>s''. train_sharp counting_keras counting_state = Inr s'' \<and>
      val_loss_sharp s'' = replicate 40 NaN \<and> val_acc_sharp s'' = replicate 40 NaN) \<and>
   (\<exists>r. run_training counting_keras counting_state = Inr r \<and>
      val_loss_bin r = replicate 40 NaN \<and> val_acc_bin r = replicate 40 NaN \<and>
      val_loss_sharp r = replicate 40 NaN \<and> val_acc_sharp r = replicate 40 NaN)"
proof -
  obtain t where t: "epoch_bin example_keras 1 0 example_state = Inr t"
    using example_epoch_bin by blast
  obtain t' where t': "epoch_sharp example_keras 1 0 example_state = Inr t'"
    using example_epoch_sharp by blast
  obtain s' where s': "train_bin counting_keras counting_state = Inr s'"
    using train_bin_total [OF counting_keras_batches] by blast
  obtain s'' where s'': "train_sharp counting_keras counting_state = Inr s''"
    using train_sharp_total [OF counting_keras_batches] by blast
  obtain r where r: "run_training counting_keras counting_state = Inr r"
    using run_training_total [OF counting_keras_batches] by blast
  have b: "samples counting_keras (test_gen_bin counting_state) = 20"
    and c: "samples counting_keras (test_gen_sharp counting_state) = 20"
    by (simp_all add: counting_keras_def counting_state_def)
  have e: "val_loss_bin example_state = []" "val_acc_bin example_state = []"
    "val_loss_sharp example_state = []" "val_acc_sharp example_state = []"
    "val_loss_bin counting_state = []" "val_acc_bin counting_state = []"
    "val_loss_sharp counting_state = []" "val_acc_sharp counting_state = []"
    by (simp_all add: example_state_def counting_state_def)
  from zero_validation_steps [of example_keras example_state 0 1 t t' t t t] t t' e
  have 1: "val_loss_bin t = [NaN] \<and> val_acc_bin t = [NaN]"
    and 2: "val_loss_sharp t' = [NaN] \<and> val_acc_sharp t' = [NaN]"
    by simp_all
  from zero_validation_steps [of counting_keras counting_state 0 0 s' s'' s' s'' r] s' s'' r b c e
  have 3: "val_loss_bin s' = replicate 40 NaN \<and> val_acc_bin s' = replicate 40 NaN"
    and 4: "val_loss_sharp s'' = replicate 40 NaN \<and> val_acc_sharp s'' = replicate 40 NaN"
    and 5: "val_loss_bin r = replicate 40 NaN \<and> val_acc_bin r = replicate 40 NaN \<and>
      val_loss_sharp r = replicate 40 NaN \<and> val_acc_sharp r = replicate 40 NaN"
    by simp_all
  from t t' s' s'' r 1 2 3 4 5 show ?thesis by blast
qed

text \<open>
  Claim C6. The script sets the eight history lists to empty and runs the two loops of
  40 epochs each. When the run reaches its end, each of the four history lists of each
  variant has exactly 40 entries; and the run does reach its end whenever the iterators
  hand out images of positive height and width.
\<close>

theorem history_lengths:
  "(run_training K s = Inr s' \<longrightarrow>
      length (train_loss_bin s') = EPOCHS \<and> length (train_acc_bin s') = EPOCHS \<and>
      length (val_loss_bin s') = EPOCHS \<and> length (val_acc_bin s') = EPOCHS \<and>
      length (train_loss_sharp s') = EPOCHS \<and> length (train_acc_sharp s') = EPOCHS \<and>
      length (val_loss_sharp s') = EPOCHS \<and> length (val_acc_sharp s') = EPOCHS) \<and>
   EPOCHS = 40 \<and>
   ((\<forall>a g. \<forall>img\<in>set (Rep_batch (fst (fst (next_batch K a g)))). \<not> empty_mat img) \<longrightarrow>
      (\<exists>s1. run_training K s = Inr s1))"
proof -
  have "length (train_loss_bin s') = EPOCHS \<and> length (train_acc_bin s') = EPOCHS \<and>
      length (val_loss_bin s') = EPOCHS \<and> length (val_acc_bin s') = EPOCHS \<and>
      length (train_loss_sharp s') = EPOCHS \<and> length (train_acc_sharp s') = EPOCHS \<and>
      length (val_loss_sharp s') = EPOCHS \<and> length (val_acc_sharp s') = EPOCHS"
    if run: "run_training K s = Inr s'"
  proof -
    from run obtain s1 where s1: "train_bin K (empty_histories s) = Inr s1" "train_sharp K s1 = Inr s'"
      by (auto simp: run_training_def split: sum.splits)
    note b1 = epochs_bin_lengths [OF s1(1) [unfolded train_bin_def]]
    note b2 = epochs_bin_frame [OF s1(1) [unfolded train_bin_def]]
    note c1 = epochs_sharp_lengths [OF s1(2) [unfolded train_sharp_def]]
    note c2 = epochs_sharp_frame [OF s1(2) [unfolded train_sharp_def]]
    from b1 b2 c1 c2 show ?thesis
      by (simp add: empty_histories_def)
  qed
  moreover have "EPOCHS = 40"
    by (simp add: EPOCHS_def)
  ultimately show ?thesis
    using run_training_total [of K s] by blast
qed

theorem history_lengths_witness:
  "\<exists>s'. run_training example_keras example_state = Inr s' \<and>
      length (train_loss_bin s') = 40 \<and> length (train_acc_bin s') = 40 \<and>
      length (val_loss_bin s') = 40 \<and> length (val_acc_bin s') = 40 \<and>
      length (train_loss_sharp s') = 40 \<and> length (train_acc_sharp s') = 40 \<and>
      length (val_loss_sharp s') = 40 \<and> length (val_acc_sharp s') = 40"
proof -
  from history_lengths [of example_keras example_state] example_keras_batches
  obtain s1 where s1: "run_training example_keras example_state = Inr s1"
    by blast
  from history_lengths [of example_keras example_state s1] s1 show ?thesis
    by simp
qed

text \<open>
  Claim C9. The two loops run one after the other (\<open>run_training\<close>), and neither
  changes what belongs to the other variant: the whole first loop leaves the model, the
  two iterators and the four history lists of the sharpened variant as they were, and the
  whole second loop leaves those of the thresholded variant as they were. (The state that
  the libraries keep for the process, \<open>ambient\<close>, belongs to neither variant.)
\<close>

theorem no_cross_variant_mutation:
  "(train_bin K s = Inr s' \<longrightarrow>
      model_sharp s' = model_sharp s \<and> train_gen_sharp s' = train_gen_sharp s \<and>
      test_gen_sharp s' = test_gen_sharp s \<and>
      train_loss_sharp s' = train_loss_sharp s \<and> train_acc_sharp s' = train_acc_sharp s \<and>
      val_loss_sharp s' = val_loss_sharp s \<and> val_acc_sharp s' = val_acc_sharp s) \<and>
   (train_sharp K s = Inr s'' \<longrightarrow>
      model_bin s'' = model_bin s \<and> train_gen_bin s'' = train_gen_bin s \<and>
      test_gen_bin s'' = test_gen_bin s \<and>
      train_loss_bin s'' = train_loss_bin s \<and> train_acc_bin s'' = train_acc_bin s \<and>
      val_loss_bin s'' = val_loss_bin s \<and> val_acc_bin s'' = val_acc_bin s)"
  unfolding train_bin_def train_sharp_def
  using epochs_bin_frame epochs_sharp_frame by blast

theorem no_cross_variant_mutation_witness:
  "(\<exists>s'. train_bin example_keras example_state = Inr s' \<and>
      model_sharp s' = model_sharp example_state \<and>
      train_gen_sharp s' = train_gen_sharp example_state \<and>
      test_gen_sharp s' = test_gen_sharp example_state \<and>
      train_loss_sharp s' = train_loss_sharp example_state \<and>
      train_acc_sharp s' = train_acc_sharp example_state \<and>
      val_loss_sharp s' = val_loss_sharp example_state \<and>
      val_acc_sharp s' = val_acc_sharp example_state) \<and>
   (\<exists>s''. train_sharp example_keras example_state = Inr s'' \<and>
      model_bin s'' = model_bin example_state \<and>
      train_gen_bin s'' = train_gen_bin example_state \<and>
      test_gen_bin s'' = test_gen_bin example_state \<and>
      train_loss_bin s'' = train_loss_bin example_state \<and>
      train_acc_bin s'' = train_acc_bin example_state \<and>
      val_loss_bin s'' = val_loss_bin example_state \<and>
      val_acc_bin s'' = val_acc_bin example_state)"
proof -
  obtain s1 where s1: "train_bin example_keras example_state = Inr s1"
    using train_bin_total [OF example_keras_batches] by blast
  obtain s2 where s2: "train_sharp example_keras example_state = Inr s2"
    using train_sharp_total [OF example_keras_batches] by blast
  from no_cross_variant_mutation [of example_keras example_state s1 s2] s1 s2
  show ?thesis by simp
qed

section \<open>The class count and the output layer\<close>

lemma build_model_last:
  "0 < n \<Longrightarrow> \<exists>m. build_model n = Inr m \<and> last (net_layers m) = Dense n Softmax"
  by (simp add: build_model_def)

lemma build_model_0: "build_model 0 = Inl ValueError"
  by (simp add: build_model_def)

lemma num_classes_listing:
  "fs ''/kaggle/input/garbage/photos'' = Some entries \<Longrightarrow>
     num_classes fs = Inr (length (filter (\<lambda>e. snd e = Directory) entries))"
  by (simp add: num_classes_def os_walk_first_def DATASET_DIR_def)

text \<open>
  Claim C7. When the dataset directory can be listed, the class count of the script is
  the number of entries of the directory that are directories. When there is at least one,
  both networks of the script are built and end in a dense softmax layer with exactly that
  many units; when there is none, building the networks raises.
\<close>

theorem class_count:
  assumes "fs ''/kaggle/input/garbage/photos'' = Some entries"
  shows "num_classes fs = Inr (length (filter (\<lambda>e. snd e = Directory) entries)) \<and>
         (filter (\<lambda>e. snd e = Directory) entries \<noteq> [] \<longrightarrow>
            (\<exists>model_bin model_sharp. build_models fs = Inr (model_bin, model_sharp) \<and>
               last (net_layers model_bin) =
                 Dense (length (filter (\<lambda>e. snd e = Directory) entries)) Softmax \<and>
               last (net_layers model_sharp) =
                 Dense (length (filter (\<lambda>e. snd e = Directory) entries)) Softmax)) \<and>
         (filter (\<lambda>e. snd e = Directory) entries = [] \<longrightarrow> build_models fs = Inl ValueError)"
proof -
  let ?k = "length (filter (\<lambda>e. snd e = Directory) entries)"
  have n: "num_classes fs = Inr ?k"
    using assms by (rule num_classes_listing [of fs entries])
  have "\<exists>model_bin model_sharp. build_models fs = Inr (model_bin, model_sharp) \<and>
      last (net_layers model_bin) = Dense ?k Softmax \<and>
      last (net_layers model_sharp) = Dense ?k Softmax"
    if "filter (\<lambda>e. snd e = Directory) entries \<noteq> []"
  proof -
    from that have "0 < ?k" by simp
    from build_model_last [OF this] obtain m where m: "build_model ?k = Inr m"
      "last (net_layers m) = Dense ?k Softmax"
      by blast
    then show ?thesis
      by (simp add: build_models_def n)
  qed
  moreover have "build_models fs = Inl ValueError"
    if "filter (\<lambda>e. snd e = Directory) entries = []"
    using that by (simp add: build_models_def n build_model_0)
  ultimately show ?thesis
    using n by blast
qed

theorem class_count_witness:
  "num_classes example_fs = Inr 2 \<and>
   (\<exists>model_bin model_sharp. build_models example_fs = Inr (model_bin, model_sharp) \<and>
      last (net_layers model_bin) = Dense 2 Softmax \<and> last (net_layers model_sharp) = Dense 2 Softmax) \<and>
   num_classes example_fs_no_classes = Inr 0 \<and>
   build_models example_fs_no_classes = Inl ValueError"
proof -
  have 1: "example_fs ''/kaggle/input/garbage/photos'' =
      Some [(''glass'', Directory), (''paper'', Directory), (''labels.txt'', RegularFile)]"
    by (simp add: example_fs_def DATASET_DIR_def)
  have 2: "example_fs_no_classes ''/kaggle/input/garbage/photos'' = Some [(''labels.txt'', RegularFile)]"
    by (simp add: example_fs_no_classes_def DATASET_DIR_def)
  from class_count [of example_fs, OF 1] class_count [of example_fs_no_classes, OF 2]
  show ?thesis
    by (simp add: numeral_2_eq_2)
qed

section \<open>The tabular split\<close>

text \<open>
  Claim C5. With test fraction 0.2 and seed 42 the split of a table does not depend on
  the state of the random number generator of the process: two runs over the same rows,
  from any two generator states, give the same four arrays (or raise the same exception).
\<close>

theorem split_deterministic:
  "partition_of (split_data R g1 data) = partition_of (split_data R g2 data)"
  by (simp add: split_data_def train_test_split_def partition_of_def Let_def
      split: sum.splits prod.splits)


lemma index_of_lt: "v \<in> set xs \<Longrightarrow> index_of v xs < length xs"
  by (induction xs) auto

lemma index_of_nth: "distinct xs \<Longrightarrow> i < length xs \<Longrightarrow> index_of (xs ! i) xs = i"
proof (induction xs arbitrary: i)
  case Nil
  then show ?case by simp
next
  case (Cons x xs)
  show ?case
  proof (cases i)
    case 0
    then show ?thesis by simp
  next
    case (Suc j)
    with Cons.prems have "xs ! j \<in> set xs" "x \<notin> set xs" by simp_all
    then have "x \<noteq> xs ! j" by blast
    with Cons Suc show ?thesis by simp
  qed
qed

lemma index_of_image:
  assumes "distinct xs"
  shows "(\<lambda>v. index_of v xs) ` set xs = {0..<length xs}"
proof
  show "(\<lambda>v. index_of v xs) ` set xs \<subseteq> {0..<length xs}"
    using index_of_lt by fastforce
next
  show "{0..<length xs} \<subseteq> (\<lambda>v. index_of v xs) ` set xs"
  proof
    fix i assume "i \<in> {0..<length xs}"
    then have i: "i < length xs" by simp
    then have "xs ! i \<in> set xs" by simp
    moreover have "index_of (xs ! i) xs = i"
      by (rule index_of_nth [OF assms i])
    ultimately show "i \<in> (\<lambda>v. index_of v xs) ` set xs"
      by (metis imageI)
  qed
qed

lemma fit_transform_set: "set (fit_transform y) = {0..<card (set y)}"
proof -
  have d: "distinct (classes_of y)" and s: "set (classes_of y) = set y"
    by (simp_all add: classes_of_def)
  have l: "length (classes_of y) = card (set y)"
    using distinct_card [OF d] s by simp
  have "set (fit_transform y) = (\<lambda>v. index_of v (classes_of y)) ` set (classes_of y)"
    by (simp add: fit_transform_def s)
  also have "\<dots> = {0..<length (classes_of y)}"
    by (rule index_of_image [OF d])
  finally show ?thesis
    by (simp only: l)
qed

lemma length_fit_transform: "length (fit_transform y) = length y"
  by (simp add: fit_transform_def)

lemma encode_category_columns:
  "map fst (encode_category data) = map fst data"
  "map snd (encode_category data) = fit_transform (map snd data)"
  by (simp_all add: encode_category_def length_fit_transform)

lemma safe_indexing_Inr:
  assumes "set idx \<subseteq> {0..<length xs}"
  shows "safe_indexing xs idx = Inr (map (\<lambda>i. xs ! i) idx)"
  using assms by (auto simp: safe_indexing_def list_all_iff)

lemma split_data_100:
  fixes data :: "('f \<times> 'c) list"
  assumes len: "length data = 100"
    and perm: "distinct (fst (rng_permutation R (RandomState R 42) 100)) \<and>
               set (fst (rng_permutation R (RandomState R 42) 100)) = {0..<100}"
  shows "\<exists>X_train X_test y_train y_test g'.
           split_data R g data = Inr ((X_train, X_test, y_train, y_test), g') \<and>
           length X_train = 80 \<and> length X_test = 20 \<and> length y_train = 80 \<and> length y_test = 20"
proof -
  let ?p = "fst (rng_permutation R (RandomState R 42) 100)"
  have lp: "length ?p = 100"
    using distinct_card [of ?p] perm by simp
  have nt: "nat \<lceil>(0.2 :: real) * real (100 :: nat)\<rceil> = 20"
    by simp
  have t1: "set (take 20 ?p) \<subseteq> {0..<100}" and t2: "set (take 80 (drop 20 ?p)) \<subseteq> {0..<100}"
    using perm set_take_subset [of 20 ?p] set_take_subset [of 80 "drop 20 ?p"] set_drop_subset [of 20 ?p]
    by blast+
  have X: "length (map fst data) = 100" and y: "length (map snd data) = 100"
    using len by simp_all
  have sX1: "safe_indexing (map fst data) (take 80 (drop 20 ?p)) = Inr (map (\<lambda>i. map fst data ! i) (take 80 (drop 20 ?p)))"
    by (rule safe_indexing_Inr) (simp only: X t2)
  have sX2: "safe_indexing (map fst data) (take 20 ?p) = Inr (map (\<lambda>i. map fst data ! i) (take 20 ?p))"
    by (rule safe_indexing_Inr) (simp only: X t1)
  have sy1: "safe_indexing (map snd data) (take 80 (drop 20 ?p)) = Inr (map (\<lambda>i. map snd data ! i) (take 80 (drop 20 ?p)))"
    by (rule safe_indexing_Inr) (simp only: y t2)
  have sy2: "safe_indexing (map snd data) (take 20 ?p) = Inr (map (\<lambda>i. map snd data ! i) (take 20 ?p))"
    by (rule safe_indexing_Inr) (simp only: y t1)
  have "split_data R g data =
      Inr ((map (\<lambda>i. map fst data ! i) (take 80 (drop 20 ?p)), map (\<lambda>i. map fst data ! i) (take 20 ?p),
            map (\<lambda>i. map snd data ! i) (take 80 (drop 20 ?p)), map (\<lambda>i. map snd data ! i) (take 20 ?p)), g)"
    unfolding split_data_def train_test_split_def Let_def X y nt
    by (simp add: sX1 sX2 sy1 sy2 len)
  then show ?thesis
    by (simp add: lp)
qed

lemma example_data_categories: "card (set (map snd example_data)) = 3"
proof -
  let ?c = "\<lambda>i::nat. [''Low'', ''Medium'', ''High''] ! (i mod 3)"
  have "set (map snd example_data) = ?c ` {0..<100}"
    by (simp add: example_data_def comp_def)
  also have "\<dots> = {''Low'', ''Medium'', ''High''}"
  proof
    show "?c ` {0..<100} \<subseteq> {''Low'', ''Medium'', ''High''}"
    proof
      fix x assume "x \<in> ?c ` {0..<100}"
      then obtain i where x: "x = ?c i" by blast
      have "i mod 3 = 0 \<or> i mod 3 = 1 \<or> i mod 3 = 2" by presburger
      with x show "x \<in> {''Low'', ''Medium'', ''High''}" by auto
    qed
  next
    have "?c 0 = ''Low''" "?c 1 = ''Medium''" "?c 2 = ''High''"
      by simp_all
    moreover have "?c 0 \<in> ?c ` {0..<100}" "?c 1 \<in> ?c ` {0..<100}" "?c 2 \<in> ?c ` {0..<100}"
      by (rule imageI, simp)+
    ultimately show "{''Low'', ''Medium'', ''High''} \<subseteq> ?c ` {0..<100}"
      by simp
  qed
  finally show ?thesis by simp
qed

text \<open>
  Claim C8. For a table of 100 rows whose category column has exactly 3 distinct strings,
  the encoded category column takes exactly the values 0, 1 and 2, and the split of the
  encoded table returns 80 training rows and 20 test rows (features and targets alike),
  provided the generator seeded with 42 draws a permutation of the 100 row numbers.
\<close>

theorem tabular_scenario:
  fixes data :: "('f \<times> string) list"
  assumes "length data = 100"
    and "card (set (map snd data)) = 3"
    and "distinct (fst (rng_permutation R (RandomState R 42) 100)) \<and>
         set (fst (rng_permutation R (RandomState R 42) 100)) = {0..<100}"
  shows "set (map snd (encode_category data)) = {0, 1, 2} \<and>
         (\<exists>X_train X_test y_train y_test g'.
            split_data R g (encode_category data) = Inr ((X_train, X_test, y_train, y_test), g') \<and>
            length X_train = 80 \<and> length X_test = 20 \<and> length y_train = 80 \<and> length y_test = 20)"
proof -
  have "set (map snd (encode_category data)) = {0..<3}"
    using assms(2) by (simp add: encode_category_columns fit_transform_set)
  also have "\<dots> = {0, 1, 2::nat}"
    by auto
  finally have 1: "set (map snd (encode_category data)) = {0, 1, 2}" .
  have "length (encode_category data) = 100"
    using assms(1) by (simp add: encode_category_def length_fit_transform)
  from split_data_100 [OF this assms(3)] 1 show ?thesis
    by blast
qed

theorem tabular_scenario_witness:
  "set (map snd (encode_category example_data)) = {0, 1, 2} \<and>
   (\<exists>X_train X_test y_train y_test g'.
      split_data example_rng 0 (encode_category example_data) = Inr ((X_train, X_test, y_train, y_test), g') \<and>
      length X_train = 80 \<and> length X_test = 20 \<and> length y_train = 80 \<and> length y_test = 20)"
proof -
  have 1: "length example_data = 100"
    by (simp add: example_data_def)
  have 3: "distinct (fst (rng_permutation example_rng (RandomState example_rng 42) 100)) \<and>
         set (fst (rng_permutation example_rng (RandomState example_rng 42) 100)) = {0..<100}"
    by (simp add: example_rng_def)
  from tabular_scenario [OF 1 example_data_categories 3] show ?thesis .
qed

end
